theory Spec2Isabelle
  imports Complex_Main "HOL-Library.Word"
begin

section \<open>CloudDrop: secure channel, negotiation and chunked transfer\<close>

text \<open>
  A shallow embedding of \<^verbatim>\<open>crypto.js\<close> (class \<^verbatim>\<open>CryptoManager\<close>) and
  \<^verbatim>\<open>webrtc.js\<close> (class \<^verbatim>\<open>WebRTCManager\<close>).

  Conventions.
  \<^item> Every \<^verbatim>\<open>Map\<close> of the two classes is a HOL map keyed by peer id; \<^verbatim>\<open>Map.get\<close> returning
    \<^verbatim>\<open>undefined\<close> is \<open>None\<close>.
  \<^item> A method is a function from the state before the call to the state after it. A method
    that can throw returns \<open>error option \<times> state\<close>: the first component is the exception
    that escapes the method, the second the state it leaves behind.
  \<^item> A handler is one step from start to end, its suspensions (\<^verbatim>\<open>await\<close>) included, with
    one exception: the handler of a binary data channel message is two steps, up to the
    \<^verbatim>\<open>await\<close> of the decryption and from there on, and \<open>receiver\<close> (subsection
    Receiving) runs the messages of a channel with the decryptions still awaited.
  \<^item> Calls that leave the two classes (signaling sends, data channel sends, callbacks,
    timers, \<^verbatim>\<open>close()\<close>) are appended to the field \<open>trace\<close> in the order they are made.
  \<^item> Browser services (Web Crypto, base64) are parameters, collected in the record
    \<open>platform\<close>; a random draw (a nonce, a UUID) and the outcome of a timed wait are
    arguments of the function that makes them; the \<^verbatim>\<open>RTCPeerConnection\<close> is the small
    state machine of the subsection on peer connections.
  \<^item> Progress reports (\<^verbatim>\<open>onProgress\<close>), \<^verbatim>\<open>Date.now()\<close> and console output carry no
    state and are left out.
\<close>

subsection \<open>Values\<close>

type_synonym js_string = "16 word list" \<comment> \<open>a JavaScript string: UTF-16 code units\<close>
type_synonym peer_id = js_string
type_synonym bytes = "8 word list"
type_synonym crypto_key = nat \<comment> \<open>handle of a derived AES-GCM \<^verbatim>\<open>CryptoKey\<close>\<close>
type_synonym public_key = nat
type_synonym private_key = nat
type_synonym timer_id = nat

datatype error =
    NoSharedKey \<comment> \<open>\<^verbatim>\<open>Error("No shared key for peer: ...")\<close>\<close>
  | OperationError \<comment> \<open>AES-GCM tag check failed (the spec's AuthenticationFailed)\<close>
  | TypeError \<comment> \<open>property read on \<^verbatim>\<open>null\<close> or \<^verbatim>\<open>undefined\<close>\<close>
  | InvalidStateError
  | DataError \<comment> \<open>\<^verbatim>\<open>importKey\<close> on malformed key bytes\<close>
  | InvalidCharacterError \<comment> \<open>\<^verbatim>\<open>atob\<close> on a string that is not base64\<close>
  | SyntaxError \<comment> \<open>\<^verbatim>\<open>JSON.parse\<close> on a string that is not JSON\<close>
  | ConnectFailed \<comment> \<open>channel or key wait timed out, or the connection failed\<close>

record key_pair =
  publicKey :: public_key
  privateKey :: private_key

record platform =
  gcm_encrypt :: "crypto_key \<Rightarrow> bytes \<Rightarrow> bytes \<Rightarrow> bytes"
    \<comment> \<open>\<^verbatim>\<open>crypto.subtle.encrypt({name:'AES-GCM', iv}, key, data)\<close>: key, iv, plaintext\<close>
  gcm_decrypt :: "crypto_key \<Rightarrow> bytes \<Rightarrow> bytes \<Rightarrow> bytes option"
    \<comment> \<open>\<^verbatim>\<open>crypto.subtle.decrypt\<close>: key, iv, ciphertext; \<open>None\<close> when it rejects\<close>
  atob :: "string \<Rightarrow> bytes option"
  btoa :: "bytes \<Rightarrow> string"
  importKey :: "bytes \<Rightarrow> public_key option"
  exportKey :: "public_key \<Rightarrow> bytes"
  deriveKey :: "private_key \<Rightarrow> public_key \<Rightarrow> crypto_key"
  generateKey :: key_pair \<comment> \<open>the pair \<^verbatim>\<open>crypto.subtle.generateKey\<close> draws\<close>

subsection \<open>CryptoManager\<close>

record crypto_manager =
  keyPair :: "key_pair option"
  sharedSecrets :: "peer_id \<rightharpoonup> crypto_key"

definition newCryptoManager :: crypto_manager where
  "newCryptoManager = \<lparr>keyPair = None, sharedSecrets = Map.empty\<rparr>"

definition generateKeyPair :: "platform \<Rightarrow> crypto_manager \<Rightarrow> crypto_manager" where
  "generateKeyPair P cm = cm\<lparr>keyPair := Some (generateKey P)\<rparr>"

definition arrayBufferToBase64 :: "platform \<Rightarrow> bytes \<Rightarrow> string" where
  "arrayBufferToBase64 P buffer = btoa P buffer"

definition base64ToArrayBuffer :: "platform \<Rightarrow> string \<Rightarrow> error + bytes" where
  "base64ToArrayBuffer P base64 =
     (case atob P base64 of None \<Rightarrow> Inl InvalidCharacterError | Some binary \<Rightarrow> Inr binary)"

definition exportPublicKey :: "platform \<Rightarrow> crypto_manager \<Rightarrow> string \<times> crypto_manager" where
  "exportPublicKey P cm =
     (let cm1 = (if keyPair cm = None then generateKeyPair P cm else cm) in
      case keyPair cm1 of
        Some kp \<Rightarrow> (arrayBufferToBase64 P (exportKey P (publicKey kp)), cm1)
      | None \<Rightarrow> ([], cm1))"

definition importPeerPublicKey ::
  "platform \<Rightarrow> peer_id \<Rightarrow> string \<Rightarrow> crypto_manager \<Rightarrow> error option \<times> crypto_manager" where
  "importPeerPublicKey P peerId publicKeyBase64 cm =
     (case base64ToArrayBuffer P publicKeyBase64 of
        Inl e \<Rightarrow> (Some e, cm)
      | Inr publicKeyBuffer \<Rightarrow>
          (case importKey P publicKeyBuffer of
             None \<Rightarrow> (Some DataError, cm)
           | Some peerPublicKey \<Rightarrow>
               (case keyPair cm of
                  None \<Rightarrow> (Some TypeError, cm)
                | Some kp \<Rightarrow>
                    (None, cm\<lparr>sharedSecrets := (sharedSecrets cm)
                               (peerId \<mapsto> deriveKey P (privateKey kp) peerPublicKey)\<rparr>))))"

text \<open>
  \<^verbatim>\<open>encrypt\<close> draws its nonce with \<^verbatim>\<open>crypto.getRandomValues(new Uint8Array(12))\<close>; the
  drawn value is the argument \<open>iv\<close>.
\<close>

definition encrypt ::
  "platform \<Rightarrow> crypto_manager \<Rightarrow> bytes \<Rightarrow> peer_id \<Rightarrow> bytes \<Rightarrow> error + (bytes \<times> bytes)" where
  "encrypt P cm iv peerId data =
     (case sharedSecrets cm peerId of
        None \<Rightarrow> Inl NoSharedKey
      | Some sharedKey \<Rightarrow> Inr (gcm_encrypt P sharedKey iv data, iv))"

definition decrypt ::
  "platform \<Rightarrow> crypto_manager \<Rightarrow> peer_id \<Rightarrow> bytes \<Rightarrow> bytes \<Rightarrow> error + bytes" where
  "decrypt P cm peerId encryptedData iv =
     (case sharedSecrets cm peerId of
        None \<Rightarrow> Inl NoSharedKey
      | Some sharedKey \<Rightarrow>
          (case gcm_decrypt P sharedKey iv encryptedData of
             None \<Rightarrow> Inl OperationError
           | Some decrypted \<Rightarrow> Inr decrypted))"

definition encryptChunk ::
  "platform \<Rightarrow> crypto_manager \<Rightarrow> bytes \<Rightarrow> peer_id \<Rightarrow> bytes \<Rightarrow> error + bytes" where
  "encryptChunk P cm iv peerId chunk =
     (case encrypt P cm iv peerId chunk of
        Inl e \<Rightarrow> Inl e
      | Inr (encrypted, iv') \<Rightarrow> Inr (iv' @ encrypted))"

definition decryptChunk ::
  "platform \<Rightarrow> crypto_manager \<Rightarrow> peer_id \<Rightarrow> bytes \<Rightarrow> error + bytes" where
  "decryptChunk P cm peerId data =
     (let iv = take 12 data; encrypted = drop 12 data
      in decrypt P cm peerId encrypted iv)"

definition removePeer :: "peer_id \<Rightarrow> crypto_manager \<Rightarrow> crypto_manager" where
  "removePeer peerId cm = cm\<lparr>sharedSecrets := (sharedSecrets cm)(peerId := None)\<rparr>"

definition hasSharedSecret :: "crypto_manager \<Rightarrow> peer_id \<Rightarrow> bool" where
  "hasSharedSecret cm peerId = (sharedSecrets cm peerId \<noteq> None)"

subsection \<open>RTCPeerConnection and RTCDataChannel\<close>

text \<open>
  The part of the browser's \<^verbatim>\<open>RTCPeerConnection\<close> that \<^verbatim>\<open>webrtc.js\<close> reads and drives,
  as W3C WebRTC 1.0 specifies it: the signaling state machine of
  \<^verbatim>\<open>setLocalDescription\<close> and \<^verbatim>\<open>setRemoteDescription\<close>, and \<^verbatim>\<open>addIceCandidate\<close>, which
  rejects with \<^verbatim>\<open>InvalidStateError\<close> while the connection has no remote description.
  The text of a session description is opaque (a number).
\<close>

datatype signaling_state =
  Stable | HaveLocalOffer | HaveRemoteOffer | HaveLocalPranswer | HaveRemotePranswer
  | SignalingClosed

datatype connection_state =
  ConnNew | ConnConnecting | ConnConnected | ConnDisconnected | ConnFailed | ConnClosed

datatype ice_connection_state =
  IceNew | IceChecking | IceConnected | IceCompleted | IceFailed | IceDisconnected | IceClosed

datatype sdp_type = Offer | Answer | Pranswer | Rollback

record session_description =
  sdpType :: sdp_type
  sdpBody :: nat

type_synonym ice_candidate = nat

record peer_connection =
  signalingState :: signaling_state
  connectionState :: connection_state
  iceConnectionState :: ice_connection_state
  remoteDescription :: "session_description option"
  localDescription :: "session_description option"
  remoteCandidates :: "ice_candidate list" \<comment> \<open>the candidates \<^verbatim>\<open>addIceCandidate\<close> accepted\<close>

definition newPeerConnection :: peer_connection where
  "newPeerConnection =
     \<lparr>signalingState = Stable, connectionState = ConnNew, iceConnectionState = IceNew,
      remoteDescription = None, localDescription = None, remoteCandidates = []\<rparr>"

definition addIceCandidate :: "ice_candidate \<Rightarrow> peer_connection \<Rightarrow> error + peer_connection" where
  "addIceCandidate c pc =
     (if signalingState pc = SignalingClosed \<or> remoteDescription pc = None
      then Inl InvalidStateError
      else Inr (pc\<lparr>remoteCandidates := remoteCandidates pc @ [c]\<rparr>))"

definition setRemoteDescription ::
  "session_description \<Rightarrow> peer_connection \<Rightarrow> error + peer_connection" where
  "setRemoteDescription d pc =
     (case sdpType d of
        Offer \<Rightarrow>
          if signalingState pc = Stable \<or> signalingState pc = HaveRemoteOffer
          then Inr (pc\<lparr>signalingState := HaveRemoteOffer, remoteDescription := Some d\<rparr>)
          else Inl InvalidStateError
      | Answer \<Rightarrow>
          if signalingState pc = HaveLocalOffer \<or> signalingState pc = HaveRemotePranswer
          then Inr (pc\<lparr>signalingState := Stable, remoteDescription := Some d\<rparr>)
          else Inl InvalidStateError
      | Pranswer \<Rightarrow>
          if signalingState pc = HaveLocalOffer \<or> signalingState pc = HaveRemotePranswer
          then Inr (pc\<lparr>signalingState := HaveRemotePranswer, remoteDescription := Some d\<rparr>)
          else Inl InvalidStateError
      | Rollback \<Rightarrow>
          if signalingState pc = HaveRemoteOffer
          then Inr (pc\<lparr>signalingState := Stable, remoteDescription := None\<rparr>)
          else Inl InvalidStateError)"

definition setLocalDescription ::
  "session_description \<Rightarrow> peer_connection \<Rightarrow> error + peer_connection" where
  "setLocalDescription d pc =
     (case sdpType d of
        Offer \<Rightarrow>
          if signalingState pc = Stable \<or> signalingState pc = HaveLocalOffer
          then Inr (pc\<lparr>signalingState := HaveLocalOffer, localDescription := Some d\<rparr>)
          else Inl InvalidStateError
      | Answer \<Rightarrow>
          if signalingState pc = HaveRemoteOffer \<or> signalingState pc = HaveLocalPranswer
          then Inr (pc\<lparr>signalingState := Stable, localDescription := Some d\<rparr>)
          else Inl InvalidStateError
      | Pranswer \<Rightarrow>
          if signalingState pc = HaveRemoteOffer \<or> signalingState pc = HaveLocalPranswer
          then Inr (pc\<lparr>signalingState := HaveLocalPranswer, localDescription := Some d\<rparr>)
          else Inl InvalidStateError
      | Rollback \<Rightarrow>
          if signalingState pc = HaveLocalOffer
          then Inr (pc\<lparr>signalingState := Stable, localDescription := None\<rparr>)
          else Inl InvalidStateError)"

text \<open>
  \<^verbatim>\<open>createAnswer\<close>: the answer the browser writes for the remote offer in place; its
  text is the argument \<open>body\<close>.
\<close>

definition createAnswer :: "nat \<Rightarrow> peer_connection \<Rightarrow> error + session_description" where
  "createAnswer body pc =
     (if signalingState pc = HaveRemoteOffer \<or> signalingState pc = HaveLocalPranswer
      then Inr \<lparr>sdpType = Answer, sdpBody = body\<rparr>
      else Inl InvalidStateError)"

datatype ready_state = ChConnecting | ChOpen | ChClosing | ChClosed

record data_channel =
  readyState :: ready_state

subsection \<open>Messages, callbacks and the trace\<close>

text \<open>
  A string on the data channel is a JSON record; \<open>NotJson\<close> is a string \<^verbatim>\<open>JSON.parse\<close>
  rejects and \<open>OtherRecord\<close> a record with any other \<^verbatim>\<open>type\<close>. The fields of
  \<open>FileStart\<close> are \<^verbatim>\<open>fileId\<close>, \<^verbatim>\<open>name\<close>, \<^verbatim>\<open>size\<close>, \<^verbatim>\<open>totalChunks\<close>.
\<close>

datatype control_record =
    FileStart string string nat nat
  | FileEnd string
  | TextRecord string
  | OtherRecord
  | NotJson

datatype dc_message = Str control_record | Bin bytes

text \<open>The \<^verbatim>\<open>data\<close> of a \<^verbatim>\<open>relay-data\<close> signaling message; a chunk carries base64 text.\<close>

datatype relay_payload =
    RelayFileStart string string nat nat
  | RelayFileEnd string
  | RelayChunk string string
  | RelayText string
  | RelayOther

datatype signal =
    OfferSignal peer_id session_description string bool
  | AnswerSignal peer_id session_description string
  | IceCandidateSignal peer_id ice_candidate
  | RelayDataSignal peer_id relay_payload

datatype callback =
    FileRequest peer_id string string nat nat
  | FileReceived peer_id string bytes
  | TextReceived peer_id string
  | ConnectionStateChange peer_id string

datatype action =
    Send signal \<comment> \<open>\<^verbatim>\<open>this.signaling.send\<close>\<close>
  | ChannelSend peer_id dc_message \<comment> \<open>\<^verbatim>\<open>send\<close> on the peer's data channel\<close>
  | Callback callback
  | SetTimeout timer_id
  | ClearTimeout timer_id
  | ChannelClose peer_id
  | ConnectionClose peer_id
  | IceRestart peer_id nat \<comment> \<open>restart attempt, with its number\<close>

subsection \<open>WebRTCManager\<close>

record transfer =
  fileId :: string
  name :: string
  fsize :: nat
  totalChunks :: nat
  chunks :: "bytes list"
  received :: nat

record js_file =
  fileName :: string
  fileData :: bytes \<comment> \<open>\<^verbatim>\<open>file.size\<close> is its length\<close>

record offer_data =
  sdp :: session_description
  peerKey :: "string option" \<comment> \<open>\<^verbatim>\<open>data.publicKey\<close>\<close>

text \<open>
  The fields are the maps of the constructor (\<^verbatim>\<open>pendingFiles\<close>, which no method reads
  or writes, is left out). \<open>pendingConnections\<close> keeps the keys of the map of promises.
  A callback field says whether a handler is registered. \<open>liveTimers\<close> are the
  timeouts set and neither fired nor cleared, \<open>nextTimer\<close> the id the next
  \<^verbatim>\<open>setTimeout\<close> returns.
\<close>

record manager =
  connections :: "peer_id \<rightharpoonup> peer_connection"
  dataChannels :: "peer_id \<rightharpoonup> data_channel"
  incomingTransfers :: "peer_id \<rightharpoonup> transfer"
  pendingConnections :: "peer_id set"
  pendingCandidates :: "peer_id \<rightharpoonup> ice_candidate list"
  iceRestartCounts :: "peer_id \<rightharpoonup> nat"
  disconnectedTimers :: "peer_id \<rightharpoonup> timer_id"
  makingOffer :: "peer_id \<rightharpoonup> bool"
  ignoreOffer :: "peer_id \<rightharpoonup> bool"
  relayMode :: "peer_id \<rightharpoonup> bool"
  myPeerId :: "js_string option"
  onFileReceived :: bool
  onFileRequest :: bool
  onTextReceived :: bool
  onConnectionStateChange :: bool
  cryptoManager :: crypto_manager
  liveTimers :: "timer_id set"
  nextTimer :: timer_id
  trace :: "action list"

definition newManager :: manager where
  "newManager =
     \<lparr>connections = Map.empty, dataChannels = Map.empty, incomingTransfers = Map.empty,
      pendingConnections = {}, pendingCandidates = Map.empty, iceRestartCounts = Map.empty,
      disconnectedTimers = Map.empty, makingOffer = Map.empty, ignoreOffer = Map.empty,
      relayMode = Map.empty, myPeerId = None,
      onFileReceived = False, onFileRequest = False, onTextReceived = False,
      onConnectionStateChange = False,
      cryptoManager = newCryptoManager, liveTimers = {}, nextTimer = 0, trace = []\<rparr>"

definition emit :: "action \<Rightarrow> manager \<Rightarrow> manager" where
  "emit a s = s\<lparr>trace := trace s @ [a]\<rparr>"

definition notify :: "bool \<Rightarrow> callback \<Rightarrow> manager \<Rightarrow> manager" where
  "notify registered cb s = (if registered then emit (Callback cb) s else s)"

definition MAX_ICE_RESTARTS :: nat where
  "MAX_ICE_RESTARTS = 2"

definition CHUNK_SIZE :: nat where
  "CHUNK_SIZE = 64 * 1024"

text \<open>JavaScript's \<^verbatim>\<open><\<close> on two strings: lexicographic on code units.\<close>

fun js_string_lt :: "js_string \<Rightarrow> js_string \<Rightarrow> bool" where
  "js_string_lt [] [] = False"
| "js_string_lt [] (y # ys) = True"
| "js_string_lt (x # xs) [] = False"
| "js_string_lt (x # xs) (y # ys) = (if x = y then js_string_lt xs ys else x < y)"

text \<open>
  \<^verbatim>\<open>_isPolite(peerId)\<close> reads \<^verbatim>\<open>this._myPeerId\<close>, which is \<^verbatim>\<open>undefined\<close> until
  \<^verbatim>\<open>setMyPeerId\<close> is called; \<^verbatim>\<open>!this._myPeerId\<close> also holds for the empty string.
\<close>

definition isPolite :: "manager \<Rightarrow> peer_id \<Rightarrow> bool" where
  "isPolite s peerId =
     (case myPeerId s of
        None \<Rightarrow> True
      | Some me \<Rightarrow> if me = [] then True else js_string_lt me peerId)"

definition setMyPeerId :: "peer_id \<Rightarrow> manager \<Rightarrow> manager" where
  "setMyPeerId peerId s = s\<lparr>myPeerId := Some peerId\<rparr>"

text \<open>
  \<^verbatim>\<open>_flushPendingCandidates(peerId, pc)\<close>: each buffered candidate is offered to the
  connection, a rejection is caught and logged, and the buffer is deleted.
\<close>

fun addBuffered :: "ice_candidate list \<Rightarrow> peer_connection \<Rightarrow> peer_connection" where
  "addBuffered [] pc = pc"
| "addBuffered (candidate # pending) pc =
     (case addIceCandidate candidate pc of
        Inr pc' \<Rightarrow> addBuffered pending pc'
      | Inl e \<Rightarrow> addBuffered pending pc)"

definition flushPendingCandidates ::
  "peer_id \<Rightarrow> peer_connection \<Rightarrow> manager \<Rightarrow> peer_connection \<times> manager" where
  "flushPendingCandidates peerId pc s =
     (case pendingCandidates s peerId of
        None \<Rightarrow> (pc, s)
      | Some pending \<Rightarrow>
          if length pending > 0
          then (addBuffered pending pc,
                s\<lparr>pendingCandidates := (pendingCandidates s)(peerId := None)\<rparr>)
          else (pc, s))"

text \<open>
  \<^verbatim>\<open>createConnection(peerId)\<close>. An existing connection that is neither failed nor
  closed is returned. When a promise is pending for the peer the call returns that
  promise, whose outcome belongs to the routine that made it: the model stops there
  with \<open>ConnectFailed\<close>. Otherwise a connection is made and stored, the two flags are set
  to false and the buffered candidates are flushed into it.
\<close>

definition createConnection :: "peer_id \<Rightarrow> manager \<Rightarrow> error + (peer_connection \<times> manager)" where
  "createConnection peerId s =
     (let fresh =
        (if peerId \<in> pendingConnections s then Inl ConnectFailed
         else
           let pc = newPeerConnection;
               s1 = s\<lparr>connections := (connections s)(peerId \<mapsto> pc),
                      makingOffer := (makingOffer s)(peerId \<mapsto> False),
                      ignoreOffer := (ignoreOffer s)(peerId \<mapsto> False)\<rparr>;
               (pc', s2) = flushPendingCandidates peerId pc s1
           in Inr (pc', s2\<lparr>connections := (connections s2)(peerId \<mapsto> pc'),
                            pendingConnections := pendingConnections s2 - {peerId}\<rparr>))
      in case connections s peerId of
           None \<Rightarrow> fresh
         | Some existing \<Rightarrow>
             if connectionState existing \<noteq> ConnFailed \<and> connectionState existing \<noteq> ConnClosed
             then Inr (existing, s)
             else fresh)"

text \<open>
  The timer of a peer is cleared in two places, \<^verbatim>\<open>closeConnection\<close> and
  \<^verbatim>\<open>_handleIceConnectionStateChange\<close>: \<^verbatim>\<open>clearTimeout\<close> and the deletion of the entry,
  both only when the peer has an entry.
\<close>

definition clearDisconnectedTimer :: "peer_id \<Rightarrow> manager \<Rightarrow> manager" where
  "clearDisconnectedTimer peerId s =
     (case disconnectedTimers s peerId of
        None \<Rightarrow> s
      | Some t \<Rightarrow> s\<lparr>trace := trace s @ [ClearTimeout t],
                     liveTimers := liveTimers s - {t},
                     disconnectedTimers := (disconnectedTimers s)(peerId := None)\<rparr>)"

text \<open>
  \<^verbatim>\<open>closeConnection(peerId)\<close>. The two \<^verbatim>\<open>?.close()\<close> calls reach the trace when the
  peer has a data channel, respectively a connection.
\<close>

definition closeConnection :: "peer_id \<Rightarrow> manager \<Rightarrow> manager" where
  "closeConnection peerId s =
     (let s1 = clearDisconnectedTimer peerId s
      in s1\<lparr>trace := trace s1
                @ (case dataChannels s1 peerId of None \<Rightarrow> [] | Some dc \<Rightarrow> [ChannelClose peerId])
                @ (case connections s1 peerId of None \<Rightarrow> [] | Some pc \<Rightarrow> [ConnectionClose peerId]),
            dataChannels := (dataChannels s1)(peerId := None),
            connections := (connections s1)(peerId := None),
            pendingCandidates := (pendingCandidates s1)(peerId := None),
            pendingConnections := pendingConnections s1 - {peerId},
            iceRestartCounts := (iceRestartCounts s1)(peerId := None),
            makingOffer := (makingOffer s1)(peerId := None),
            ignoreOffer := (ignoreOffer s1)(peerId := None),
            cryptoManager := removePeer peerId (cryptoManager s1)\<rparr>)"

subsection \<open>Connectivity handlers\<close>

definition restartCount :: "manager \<Rightarrow> peer_id \<Rightarrow> nat" where
  "restartCount s peerId = (case iceRestartCounts s peerId of None \<Rightarrow> 0 | Some n \<Rightarrow> n)"

text \<open>
  \<^verbatim>\<open>_attemptIceRestart\<close>: the counter is checked and incremented before the first
  suspension; the restart offer that follows after \<^verbatim>\<open>ICE_RESTART_DELAY\<close> touches no
  counter and is the trace entry \<open>IceRestart\<close>.
\<close>

definition attemptIceRestart :: "peer_id \<Rightarrow> manager \<Rightarrow> manager" where
  "attemptIceRestart peerId s =
     (if restartCount s peerId \<ge> MAX_ICE_RESTARTS then s
      else s\<lparr>iceRestartCounts := (iceRestartCounts s)(peerId \<mapsto> restartCount s peerId + 1),
             trace := trace s @ [IceRestart peerId (restartCount s peerId + 1)]\<rparr>)"

text \<open>
  \<^verbatim>\<open>_handleIceConnectionStateChange(peerId, pc)\<close>; \<open>pc\<close> is the connection as the
  handler finds it.
\<close>

definition handleIceConnectionStateChange :: "peer_id \<Rightarrow> peer_connection \<Rightarrow> manager \<Rightarrow> manager" where
  "handleIceConnectionStateChange peerId pc s =
     (let s1 = clearDisconnectedTimer peerId s
      in if iceConnectionState pc = IceDisconnected then
           s1\<lparr>trace := trace s1 @ [SetTimeout (nextTimer s1)],
              liveTimers := insert (nextTimer s1) (liveTimers s1),
              disconnectedTimers := (disconnectedTimers s1)(peerId \<mapsto> nextTimer s1),
              nextTimer := nextTimer s1 + 1\<rparr>
         else if iceConnectionState pc = IceFailed then attemptIceRestart peerId s1
         else if iceConnectionState pc = IceConnected \<or> iceConnectionState pc = IceCompleted
         then s1\<lparr>iceRestartCounts := (iceRestartCounts s1)(peerId := None)\<rparr>
         else s1)"

text \<open>
  The callback of the timer set on \<^verbatim>\<open>disconnected\<close>: it runs when timer \<open>t\<close> is still
  live, with the connection as it is then.
\<close>

definition disconnectedTimerFired ::
  "peer_id \<Rightarrow> timer_id \<Rightarrow> peer_connection \<Rightarrow> manager \<Rightarrow> manager" where
  "disconnectedTimerFired peerId t pc s =
     (if t \<in> liveTimers s then
        (let s1 = s\<lparr>liveTimers := liveTimers s - {t}\<rparr>
         in if iceConnectionState pc = IceDisconnected then attemptIceRestart peerId s1 else s1)
      else s)"

definition handleConnectionStateChange :: "peer_id \<Rightarrow> peer_connection \<Rightarrow> manager \<Rightarrow> manager" where
  "handleConnectionStateChange peerId pc s =
     (if connectionState pc = ConnFailed then
        (if restartCount s peerId \<ge> MAX_ICE_RESTARTS then closeConnection peerId s else s)
      else if connectionState pc = ConnClosed then closeConnection peerId s
      else s)"

text \<open>
  The events of one peer's connection: the two state-change handlers that
  \<^verbatim>\<open>createConnection\<close> installs, and the timer set on \<^verbatim>\<open>disconnected\<close>. Each carries
  the connection as the handler finds it.
\<close>

datatype connectivity_event =
    IceStateChange peer_connection
  | DisconnectedTimer timer_id peer_connection
  | ConnStateChange peer_connection

fun connectivityStep :: "peer_id \<Rightarrow> manager \<Rightarrow> connectivity_event \<Rightarrow> manager" where
  "connectivityStep peerId s (IceStateChange pc) = handleIceConnectionStateChange peerId pc s"
| "connectivityStep peerId s (DisconnectedTimer t pc) = disconnectedTimerFired peerId t pc s"
| "connectivityStep peerId s (ConnStateChange pc) = handleConnectionStateChange peerId pc s"

definition runEvents :: "peer_id \<Rightarrow> connectivity_event list \<Rightarrow> manager \<Rightarrow> manager" where
  "runEvents peerId evs s = foldl (connectivityStep peerId) s evs"

text \<open>An ICE failure or disconnection event, or the firing of the disconnection timer.\<close>

fun failureEvent :: "connectivity_event \<Rightarrow> bool" where
  "failureEvent (IceStateChange pc) =
     (iceConnectionState pc = IceFailed \<or> iceConnectionState pc = IceDisconnected)"
| "failureEvent (DisconnectedTimer t pc) = True"
| "failureEvent (ConnStateChange pc) = False"

fun isRestartOf :: "peer_id \<Rightarrow> action \<Rightarrow> bool" where
  "isRestartOf peerId (IceRestart q n) = (q = peerId)"
| "isRestartOf peerId a = False"

definition restartAttempts :: "peer_id \<Rightarrow> manager \<Rightarrow> nat" where
  "restartAttempts peerId s = length (filter (isRestartOf peerId) (trace s))"

text \<open>Restart attempts made so far plus the attempts the counter still allows.\<close>

definition restartBudget :: "peer_id \<Rightarrow> manager \<Rightarrow> nat" where
  "restartBudget p s = restartAttempts p s + (MAX_ICE_RESTARTS - restartCount s p)"

subsection \<open>Negotiation\<close>

text \<open>
  The connection a handler holds is the object stored in \<open>connections\<close>; the model
  writes the handler's copy back after each call that changes it.
\<close>

definition storeConnection :: "peer_id \<Rightarrow> peer_connection \<Rightarrow> manager \<Rightarrow> manager" where
  "storeConnection peerId pc s = s\<lparr>connections := (connections s)(peerId \<mapsto> pc)\<rparr>"

text \<open>\<^verbatim>\<open>if (data.publicKey) await cryptoManager.importPeerPublicKey(peerId, data.publicKey)\<close>.\<close>

definition importOfferKey ::
  "platform \<Rightarrow> peer_id \<Rightarrow> offer_data \<Rightarrow> crypto_manager \<Rightarrow> error option \<times> crypto_manager" where
  "importOfferKey P peerId data cm =
     (case peerKey data of
        None \<Rightarrow> (None, cm)
      | Some k \<Rightarrow> if k = [] then (None, cm) else importPeerPublicKey P peerId k cm)"

text \<open>
  The \<^verbatim>\<open>try\<close> block of \<^verbatim>\<open>handleOffer\<close>. An exception of any step is caught and logged,
  and the steps after it are skipped. \<open>body\<close> is the text of the answer the browser
  creates.
\<close>

definition acceptOffer ::
  "platform \<Rightarrow> nat \<Rightarrow> peer_id \<Rightarrow> offer_data \<Rightarrow> peer_connection \<Rightarrow> manager \<Rightarrow> manager" where
  "acceptOffer P body peerId data pc s =
     (case (if signalingState pc = HaveLocalOffer
            then setLocalDescription \<lparr>sdpType = Rollback, sdpBody = 0\<rparr> pc
            else Inr pc) of
        Inl e \<Rightarrow> s
      | Inr pc1 \<Rightarrow>
          (case setRemoteDescription (sdp data) pc1 of
             Inl e \<Rightarrow> storeConnection peerId pc1 s
           | Inr pc2 \<Rightarrow>
               (let (pc3, s3) = flushPendingCandidates peerId pc2 s;
                    s4 = storeConnection peerId pc3 s3;
                    (imported, cm1) = importOfferKey P peerId data (cryptoManager s4)
                in case imported of
                     Some e \<Rightarrow> s4\<lparr>cryptoManager := cm1\<rparr>
                   | None \<Rightarrow>
                       (let (myKey, cm2) = exportPublicKey P cm1;
                            s5 = s4\<lparr>cryptoManager := cm2\<rparr>
                        in case createAnswer body pc3 of
                             Inl e \<Rightarrow> s5
                           | Inr answer \<Rightarrow>
                               (case setLocalDescription answer pc3 of
                                  Inl e \<Rightarrow> s5
                                | Inr pc4 \<Rightarrow>
                                    emit (Send (AnswerSignal peerId answer myKey))
                                      (storeConnection peerId pc4 s5))))))"

definition offerCollision :: "manager \<Rightarrow> peer_id \<Rightarrow> peer_connection \<Rightarrow> bool" where
  "offerCollision s peerId pc =
     (makingOffer s peerId = Some True \<or>
      (signalingState pc \<noteq> Stable \<and> signalingState pc \<noteq> HaveLocalOffer))"

definition handleOffer ::
  "platform \<Rightarrow> nat \<Rightarrow> peer_id \<Rightarrow> offer_data \<Rightarrow> manager \<Rightarrow> error option \<times> manager" where
  "handleOffer P body peerId data s =
     (case createConnection peerId s of
        Inl e \<Rightarrow> (Some e, s)
      | Inr (pc, s1) \<Rightarrow>
          (let polite = isPolite s1 peerId;
               collision = offerCollision s1 peerId pc;
               s2 = s1\<lparr>ignoreOffer := (ignoreOffer s1)(peerId \<mapsto> (\<not> polite \<and> collision))\<rparr>
           in if \<not> polite \<and> collision then (None, s2)
              else (None, acceptOffer P body peerId data pc s2)))"

definition handleIceCandidate :: "peer_id \<Rightarrow> ice_candidate \<Rightarrow> manager \<Rightarrow> manager" where
  "handleIceCandidate peerId candidate s =
     (let buffered =
            s\<lparr>pendingCandidates := (pendingCandidates s)
                 (peerId \<mapsto> (case pendingCandidates s peerId of
                                None \<Rightarrow> [] | Some pending \<Rightarrow> pending) @ [candidate])\<rparr>
      in case connections s peerId of
           None \<Rightarrow> buffered
         | Some pc \<Rightarrow>
             if remoteDescription pc \<noteq> None then
               (case addIceCandidate candidate pc of
                  Inr pc' \<Rightarrow> storeConnection peerId pc' s
                | Inl e \<Rightarrow> s)
             else buffered)"

text \<open>The candidates buffered for a peer.\<close>

definition bufferedCandidates :: "manager \<Rightarrow> peer_id \<Rightarrow> ice_candidate list" where
  "bufferedCandidates s peerId =
     (case pendingCandidates s peerId of None \<Rightarrow> [] | Some pending \<Rightarrow> pending)"

subsection \<open>Sending\<close>

text \<open>
  \<^verbatim>\<open>ensureConnection\<close> returns at once when the peer's channel is open and its key is
  stored. Otherwise it negotiates and waits on timers; what that wait ends in is the
  argument \<open>N\<close>.
\<close>

type_synonym negotiation = "peer_id \<Rightarrow> manager \<Rightarrow> error option \<times> manager"

definition ensureConnection :: "negotiation \<Rightarrow> peer_id \<Rightarrow> manager \<Rightarrow> error option \<times> manager" where
  "ensureConnection N peerId s =
     (case dataChannels s peerId of
        None \<Rightarrow> N peerId s
      | Some channel \<Rightarrow>
          if readyState channel = ChOpen \<and> hasSharedSecret (cryptoManager s) peerId
          then (None, s)
          else N peerId s)"

definition notifyConnectionState :: "peer_id \<Rightarrow> string \<Rightarrow> manager \<Rightarrow> manager" where
  "notifyConnectionState peerId status s =
     notify (onConnectionStateChange s) (ConnectionStateChange peerId status) s"

definition channelSend ::
  "peer_id \<Rightarrow> data_channel \<Rightarrow> dc_message \<Rightarrow> manager \<Rightarrow> error option \<times> manager" where
  "channelSend peerId dc msg s =
     (if readyState dc = ChOpen then (None, emit (ChannelSend peerId msg) s)
      else (Some InvalidStateError, s))"

definition sendTextViaRelay :: "peer_id \<Rightarrow> string \<Rightarrow> manager \<Rightarrow> manager" where
  "sendTextViaRelay peerId txt s = emit (Send (RelayDataSignal peerId (RelayText txt))) s"

definition switchToRelay :: "peer_id \<Rightarrow> manager \<Rightarrow> manager" where
  "switchToRelay peerId s =
     notifyConnectionState peerId ''relay'' (s\<lparr>relayMode := (relayMode s)(peerId \<mapsto> True)\<rparr>)"

definition sendText :: "negotiation \<Rightarrow> peer_id \<Rightarrow> string \<Rightarrow> manager \<Rightarrow> manager" where
  "sendText N peerId txt s =
     (if relayMode s peerId = Some True then sendTextViaRelay peerId txt s
      else
        (case ensureConnection N peerId s of
           (Some e, s1) \<Rightarrow> sendTextViaRelay peerId txt (switchToRelay peerId s1)
         | (None, s1) \<Rightarrow>
             (case dataChannels s1 peerId of
                None \<Rightarrow> sendTextViaRelay peerId txt (switchToRelay peerId s1)
              | Some dc \<Rightarrow>
                  (case channelSend peerId dc (Str (TextRecord txt)) s1 of
                     (Some e, s2) \<Rightarrow> sendTextViaRelay peerId txt (switchToRelay peerId s2)
                   | (None, s2) \<Rightarrow> s2))))"

text \<open>
  The loop of \<^verbatim>\<open>sendFile\<close>. \<open>ivs i\<close> is the nonce drawn for chunk \<open>i\<close>. The wait on
  \<^verbatim>\<open>bufferedAmount\<close> delays a send and changes nothing that is sent.
\<close>

function sendChunks ::
  "platform \<Rightarrow> (nat \<Rightarrow> bytes) \<Rightarrow> peer_id \<Rightarrow> data_channel \<Rightarrow> bytes \<Rightarrow> nat \<Rightarrow> nat \<Rightarrow> manager
   \<Rightarrow> error option \<times> manager" where
  "sendChunks P ivs peerId dc file offset chunkIndex s =
     (if offset < length file then
        (case encryptChunk P (cryptoManager s) (ivs chunkIndex) peerId
                (take CHUNK_SIZE (drop offset file)) of
           Inl e \<Rightarrow> (Some e, s)
         | Inr encrypted \<Rightarrow>
             (case channelSend peerId dc (Bin encrypted) s of
                (Some e, s1) \<Rightarrow> (Some e, s1)
              | (None, s1) \<Rightarrow>
                  sendChunks P ivs peerId dc file (offset + CHUNK_SIZE) (chunkIndex + 1) s1))
      else (None, s))"
  by pat_completeness auto
termination
  by (relation "measure (\<lambda>(P, ivs, peerId, dc, file, offset, chunkIndex, s). length file - offset)")
     (auto simp: CHUNK_SIZE_def)

function relayChunks ::
  "platform \<Rightarrow> string \<Rightarrow> (nat \<Rightarrow> bytes) \<Rightarrow> peer_id \<Rightarrow> bytes \<Rightarrow> nat \<Rightarrow> nat \<Rightarrow> manager
   \<Rightarrow> error option \<times> manager" where
  "relayChunks P newId ivs peerId file offset chunkIndex s =
     (if offset < length file then
        (case encryptChunk P (cryptoManager s) (ivs chunkIndex) peerId
                (take CHUNK_SIZE (drop offset file)) of
           Inl e \<Rightarrow> (Some e, s)
         | Inr encrypted \<Rightarrow>
             relayChunks P newId ivs peerId file (offset + CHUNK_SIZE) (chunkIndex + 1)
               (emit (Send (RelayDataSignal peerId (RelayChunk newId (btoa P encrypted)))) s))
      else (None, s))"
  by pat_completeness auto
termination
  by (relation "measure (\<lambda>(P, newId, ivs, peerId, file, offset, chunkIndex, s). length file - offset)")
     (auto simp: CHUNK_SIZE_def)

text \<open>\<^verbatim>\<open>Math.ceil(file.size / CHUNK_SIZE)\<close>.\<close>

definition totalChunksOf :: "js_file \<Rightarrow> nat" where
  "totalChunksOf file = nat \<lceil>real (length (fileData file)) / real CHUNK_SIZE\<rceil>"

text \<open>\<open>newId\<close> is the value \<^verbatim>\<open>crypto.randomUUID()\<close> returns.\<close>

definition sendFileViaRelay ::
  "platform \<Rightarrow> string \<Rightarrow> (nat \<Rightarrow> bytes) \<Rightarrow> peer_id \<Rightarrow> js_file \<Rightarrow> manager
   \<Rightarrow> error option \<times> manager" where
  "sendFileViaRelay P newId ivs peerId file s =
     (let s1 = emit (Send (RelayDataSignal peerId
                 (RelayFileStart newId (fileName file) (length (fileData file))
                    (totalChunksOf file)))) s
      in case relayChunks P newId ivs peerId (fileData file) 0 0 s1 of
           (Some e, s2) \<Rightarrow> (Some e, s2)
         | (None, s2) \<Rightarrow> (None, emit (Send (RelayDataSignal peerId (RelayFileEnd newId))) s2))"

definition sendFile ::
  "platform \<Rightarrow> negotiation \<Rightarrow> string \<Rightarrow> (nat \<Rightarrow> bytes) \<Rightarrow> peer_id \<Rightarrow> js_file \<Rightarrow> manager
   \<Rightarrow> error option \<times> manager" where
  "sendFile P N newId ivs peerId file s =
     (if relayMode s peerId = Some True then sendFileViaRelay P newId ivs peerId file s
      else
        (case ensureConnection N peerId s of
           (Some e, s1) \<Rightarrow> sendFileViaRelay P newId ivs peerId file (switchToRelay peerId s1)
         | (None, s1) \<Rightarrow>
             (case dataChannels s1 peerId of
                None \<Rightarrow> (Some TypeError, s1)
              | Some dc \<Rightarrow>
                  (case channelSend peerId dc
                          (Str (FileStart newId (fileName file) (length (fileData file))
                                  (totalChunksOf file))) s1 of
                     (Some e, s2) \<Rightarrow> (Some e, s2)
                   | (None, s2) \<Rightarrow>
                       (case sendChunks P ivs peerId dc (fileData file) 0 0 s2 of
                          (Some e, s3) \<Rightarrow> (Some e, s3)
                        | (None, s3) \<Rightarrow> channelSend peerId dc (Str (FileEnd newId)) s3)))))"

subsection \<open>Receiving\<close>

definition newTransfer :: "string \<Rightarrow> string \<Rightarrow> nat \<Rightarrow> nat \<Rightarrow> transfer" where
  "newTransfer fid nm sz tc =
     \<lparr>fileId = fid, name = nm, fsize = sz, totalChunks = tc, chunks = [], received = 0\<rparr>"

definition pushChunk :: "bytes \<Rightarrow> transfer \<Rightarrow> transfer" where
  "pushChunk decrypted t =
     t\<lparr>chunks := chunks t @ [decrypted], received := received t + length decrypted\<rparr>"

text \<open>File end: \<^verbatim>\<open>new Blob(transfer.chunks)\<close> is the concatenation of the chunks.\<close>

definition completeTransfer :: "peer_id \<Rightarrow> manager \<Rightarrow> manager" where
  "completeTransfer peerId s =
     (case incomingTransfers s peerId of
        None \<Rightarrow> s
      | Some t \<Rightarrow>
          (notify (onFileReceived s) (FileReceived peerId (name t) (concat (chunks t))) s)
            \<lparr>incomingTransfers := (incomingTransfers s)(peerId := None)\<rparr>)"

definition handleMessage ::
  "platform \<Rightarrow> peer_id \<Rightarrow> dc_message \<Rightarrow> manager \<Rightarrow> error option \<times> manager" where
  "handleMessage P peerId data s =
     (case data of
        Str msg \<Rightarrow>
          (case msg of
             NotJson \<Rightarrow> (Some SyntaxError, s)
           | FileStart fid nm sz tc \<Rightarrow>
               (None, notify (onFileRequest s) (FileRequest peerId fid nm sz tc)
                        (s\<lparr>incomingTransfers := (incomingTransfers s)
                              (peerId \<mapsto> newTransfer fid nm sz tc)\<rparr>))
           | FileEnd fid \<Rightarrow> (None, completeTransfer peerId s)
           | TextRecord c \<Rightarrow> (None, notify (onTextReceived s) (TextReceived peerId c) s)
           | OtherRecord \<Rightarrow> (None, s))
      | Bin buf \<Rightarrow>
          (case incomingTransfers s peerId of
             None \<Rightarrow> (None, s)
           | Some t \<Rightarrow>
               (case decryptChunk P (cryptoManager s) peerId buf of
                  Inl e \<Rightarrow> (Some e, s)
                | Inr decrypted \<Rightarrow>
                    (None, s\<lparr>incomingTransfers := (incomingTransfers s)
                                 (peerId \<mapsto> pushChunk decrypted t)\<rparr>))))"

text \<open>The first lines of \<^verbatim>\<open>handleRelayData\<close>: any relay payload puts the peer in relay mode.\<close>

definition markRelay :: "peer_id \<Rightarrow> manager \<Rightarrow> manager" where
  "markRelay peerId s =
     (if relayMode s peerId = Some True then s
      else s\<lparr>relayMode := (relayMode s)(peerId \<mapsto> True)\<rparr>)"

definition handleRelayData ::
  "platform \<Rightarrow> peer_id \<Rightarrow> relay_payload \<Rightarrow> manager \<Rightarrow> error option \<times> manager" where
  "handleRelayData P peerId data s0 =
     (let s = markRelay peerId s0
      in case data of
           RelayFileStart fid nm sz tc \<Rightarrow>
             (None, notify (onFileRequest s) (FileRequest peerId fid nm sz tc)
                      (s\<lparr>incomingTransfers := (incomingTransfers s)
                            (peerId \<mapsto> newTransfer fid nm sz tc)\<rparr>))
         | RelayFileEnd fid \<Rightarrow> (None, completeTransfer peerId s)
         | RelayChunk fid b64 \<Rightarrow>
             (case incomingTransfers s peerId of
                None \<Rightarrow> (None, s)
              | Some t \<Rightarrow>
                  if fileId t = fid then
                    (case atob P b64 of
                       None \<Rightarrow> (Some InvalidCharacterError, s)
                     | Some buf \<Rightarrow>
                         (case decryptChunk P (cryptoManager s) peerId buf of
                            Inl e \<Rightarrow> (Some e, s)
                          | Inr decrypted \<Rightarrow>
                              (None, s\<lparr>incomingTransfers := (incomingTransfers s)
                                           (peerId \<mapsto> pushChunk decrypted t)\<rparr>)))
                  else (None, s))
         | RelayText c \<Rightarrow> (None, notify (onTextReceived s) (TextReceived peerId c) s)
         | RelayOther \<Rightarrow> (None, s))"

text \<open>
  The data channel starts \<^verbatim>\<open>handleMessage\<close> for each message and does not wait for the
  promise it returns (\<^verbatim>\<open>channel.onmessage = (e) => this.handleMessage(peerId, e.data)\<close>).
  A text message is handled in one step: that branch has no \<^verbatim>\<open>await\<close>. For a binary
  message the handler reads the peer's transfer and calls \<^verbatim>\<open>decryptChunk\<close>, which looks
  the shared key up and hands the buffer to the cipher at once; the handler is then
  suspended at \<^verbatim>\<open>await\<close> until the decryption settles, and messages that arrive
  meanwhile are handled meanwhile. When it resumes it pushes the chunk onto the transfer
  object it read before the wait. That object is still the peer's transfer when no
  file-start has replaced it and no file-end has removed it; otherwise nothing reads it
  again. \<open>transferSerial\<close> counts the transfer objects created for a peer, and so tells
  whether the object a suspended handler holds is the one in \<open>incomingTransfers\<close>.
  \<open>handleMessage\<close> above is the handling of a message whose decryption settles before
  anything else happens.
\<close>

record pending_chunk =
  pendingPeer :: peer_id
  pendingSerial :: nat
  pendingResult :: "error + bytes"

record receiver =
  rxManager :: manager
  transferSerial :: "peer_id \<Rightarrow> nat"
  awaiting :: "pending_chunk list"

definition messageArrives :: "platform \<Rightarrow> peer_id \<Rightarrow> dc_message \<Rightarrow> receiver \<Rightarrow> receiver" where
  "messageArrives P peerId data r =
     (case data of
        Str msg \<Rightarrow>
          r\<lparr>rxManager := snd (handleMessage P peerId data (rxManager r)),
            transferSerial :=
              (case msg of
                 FileStart fid nm sz tc \<Rightarrow>
                   (transferSerial r)(peerId := Suc (transferSerial r peerId))
               | _ \<Rightarrow> transferSerial r)\<rparr>
      | Bin buf \<Rightarrow>
          (case incomingTransfers (rxManager r) peerId of
             None \<Rightarrow> r
           | Some t \<Rightarrow>
               r\<lparr>awaiting := awaiting r @
                    [\<lparr>pendingPeer = peerId, pendingSerial = transferSerial r peerId,
                      pendingResult = decryptChunk P (cryptoManager (rxManager r)) peerId buf\<rparr>]\<rparr>))"

definition decryptSettles :: "nat \<Rightarrow> receiver \<Rightarrow> receiver" where
  "decryptSettles i r =
     (if i < length (awaiting r) then
        (let h = awaiting r ! i;
             r1 = r\<lparr>awaiting := take i (awaiting r) @ drop (Suc i) (awaiting r)\<rparr>
         in case pendingResult h of
              Inl e \<Rightarrow> r1
            | Inr decrypted \<Rightarrow>
                (case incomingTransfers (rxManager r) (pendingPeer h) of
                   None \<Rightarrow> r1
                 | Some t \<Rightarrow>
                     if transferSerial r (pendingPeer h) = pendingSerial h
                     then r1\<lparr>rxManager := (rxManager r)
                            \<lparr>incomingTransfers := (incomingTransfers (rxManager r))
                               (pendingPeer h \<mapsto> pushChunk decrypted t)\<rparr>\<rparr>
                     else r1))
      else r)"

datatype channel_event = Message peer_id dc_message | DecryptSettled nat

definition channelStep :: "platform \<Rightarrow> channel_event \<Rightarrow> receiver \<Rightarrow> receiver" where
  "channelStep P ev r =
     (case ev of
        Message peerId data \<Rightarrow> messageArrives P peerId data r
      | DecryptSettled i \<Rightarrow> decryptSettles i r)"

definition runChannel :: "platform \<Rightarrow> channel_event list \<Rightarrow> receiver \<Rightarrow> receiver" where
  "runChannel P evs r = foldl (\<lambda>r' ev. channelStep P ev r') r evs"

subsection \<open>The chunks of a file\<close>

text \<open>
  The slices \<^verbatim>\<open>file.slice(offset, offset + CHUNK_SIZE)\<close> the sending loops read, from
  \<open>offset\<close> on, and the framed ciphertexts of a list of chunks under key \<open>k\<close>, the
  nonce of chunk \<open>i\<close> being \<open>ivs i\<close>. The proofs state what the loops send in
  these terms.
\<close>

function fileChunks :: "bytes \<Rightarrow> nat \<Rightarrow> bytes list" where
  "fileChunks file offset =
     (if offset < length file
      then take CHUNK_SIZE (drop offset file) # fileChunks file (offset + CHUNK_SIZE)
      else [])"
  by pat_completeness auto
termination
  by (relation "measure (\<lambda>(file, offset). length file - offset)") (auto simp: CHUNK_SIZE_def)

fun framesOf :: "platform \<Rightarrow> crypto_key \<Rightarrow> (nat \<Rightarrow> bytes) \<Rightarrow> nat \<Rightarrow> bytes list \<Rightarrow> bytes list" where
  "framesOf P k ivs i [] = []"
| "framesOf P k ivs i (c # cs) =
     (ivs i @ gcm_encrypt P k (ivs i) c) # framesOf P k ivs (Suc i) cs"

subsection \<open>Concrete inputs\<close>

text \<open>
  A stand-in cipher, used only to instantiate \<open>platform\<close> at concrete inputs: the
  ciphertext is the plaintext followed by a tag made of the key and the nonce.
\<close>

definition demo_tag :: "crypto_key \<Rightarrow> bytes \<Rightarrow> bytes" where
  "demo_tag k iv = of_nat k # iv"

definition demo_encrypt :: "crypto_key \<Rightarrow> bytes \<Rightarrow> bytes \<Rightarrow> bytes" where
  "demo_encrypt k iv p = p @ demo_tag k iv"

definition demo_decrypt :: "crypto_key \<Rightarrow> bytes \<Rightarrow> bytes \<Rightarrow> bytes option" where
  "demo_decrypt k iv c =
     (let n = length c - length (demo_tag k iv) in
      if length (demo_tag k iv) \<le> length c \<and> drop n c = demo_tag k iv
      then Some (take n c) else None)"

definition demo_platform :: platform where
  "demo_platform =
     \<lparr>gcm_encrypt = demo_encrypt, gcm_decrypt = demo_decrypt,
      atob = (\<lambda>s. Some (map (\<lambda>c. of_nat (of_char c)) s)),
      btoa = (\<lambda>b. map (\<lambda>w. char_of (unat w)) b),
      importKey = (\<lambda>b. if b = [] then None else Some (length b)),
      exportKey = (\<lambda>k. [75, 69, 89]),
      deriveKey = (\<lambda>priv pub. priv + pub),
      generateKey = \<lparr>publicKey = 3, privateKey = 5\<rparr>\<rparr>"

definition nonce0 :: bytes where
  "nonce0 = [1, 2, 3, 4, 5, 6, 7, 8, 9, 10, 11, 12]"


definition peerA :: peer_id where "peerA = [0x61]"

definition peerB :: peer_id where "peerB = [0x62]"

definition demo_keys :: crypto_manager where
  "demo_keys = \<lparr>keyPair = None, sharedSecrets = [peerB \<mapsto> 7]\<rparr>"

definition pcWithIce :: "ice_connection_state \<Rightarrow> peer_connection" where
  "pcWithIce st = newPeerConnection\<lparr>iceConnectionState := st\<rparr>"

definition pcWithConn :: "connection_state \<Rightarrow> peer_connection" where
  "pcWithConn st = newPeerConnection\<lparr>connectionState := st\<rparr>"

definition openChannel :: data_channel where
  "openChannel = \<lparr>readyState = ChOpen\<rparr>"

definition demo_transfer :: transfer where
  "demo_transfer = (newTransfer ''id-1'' ''a.txt'' 3 1)\<lparr>chunks := [[1, 2]], received := 2\<rparr>"

definition busyManager :: manager where
  "busyManager = newManager
     \<lparr>connections := [peerB \<mapsto> newPeerConnection],
      dataChannels := [peerB \<mapsto> openChannel],
      incomingTransfers := [peerB \<mapsto> demo_transfer],
      pendingCandidates := [peerB \<mapsto> [4]],
      iceRestartCounts := [peerB \<mapsto> 1],
      disconnectedTimers := [peerB \<mapsto> 0],
      makingOffer := [peerB \<mapsto> False],
      ignoreOffer := [peerB \<mapsto> False],
      relayMode := [peerB \<mapsto> True],
      cryptoManager := demo_keys,
      liveTimers := {0}, nextTimer := 1\<rparr>"

definition demo_events :: "connectivity_event list" where
  "demo_events =
     [IceStateChange (pcWithIce IceFailed),
      IceStateChange (pcWithIce IceDisconnected),
      DisconnectedTimer 0 (pcWithIce IceDisconnected),
      IceStateChange (pcWithIce IceFailed),
      IceStateChange (pcWithIce IceDisconnected),
      DisconnectedTimer 1 (pcWithIce IceDisconnected)]"

definition connectedManager :: manager where
  "connectedManager = newManager
     \<lparr>connections := [peerB \<mapsto> newPeerConnection],
      dataChannels := [peerB \<mapsto> openChannel],
      cryptoManager := demo_keys\<rparr>"

definition relayManager :: manager where
  "relayManager = newManager\<lparr>relayMode := [peerB \<mapsto> True], cryptoManager := demo_keys\<rparr>"

definition receivingManager :: manager where
  "receivingManager = newManager
     \<lparr>incomingTransfers := [peerB \<mapsto> demo_transfer], cryptoManager := demo_keys,
      onFileReceived := True\<rparr>"

definition smallFile :: js_file where
  "smallFile = \<lparr>fileName = ''a.txt'', fileData = [1, 2, 3]\<rparr>"

definition receiverOfA :: manager where
  "receiverOfA = newManager
     \<lparr>cryptoManager := \<lparr>keyPair = None, sharedSecrets = [peerA \<mapsto> 7]\<rparr>,
      onFileReceived := True\<rparr>"

definition idleReceiver :: receiver where
  "idleReceiver = \<lparr>rxManager = receiverOfA, transferSerial = (\<lambda>p. 0), awaiting = []\<rparr>"

definition noNegotiation :: negotiation where
  "noNegotiation peerId s = (Some ConnectFailed, s)"

definition plainOffer :: offer_data where
  "plainOffer = \<lparr>sdp = \<lparr>sdpType = Offer, sdpBody = 1\<rparr>, peerKey = None\<rparr>"

definition keyedOffer :: offer_data where
  "keyedOffer = \<lparr>sdp = \<lparr>sdpType = Offer, sdpBody = 1\<rparr>, peerKey = Some ''QUJD''\<rparr>"

definition localOfferConnection :: peer_connection where
  "localOfferConnection = newPeerConnection
     \<lparr>signalingState := HaveLocalOffer,
      localDescription := Some \<lparr>sdpType = Offer, sdpBody = 2\<rparr>\<rparr>"

text \<open>
  The impolite peer after its own \<^verbatim>\<open>createOffer\<close> has completed: the offer is set as local
  description and sent, and the \<^verbatim>\<open>finally\<close> block has reset \<open>makingOffer\<close>.
\<close>

definition offeringManager :: manager where
  "offeringManager = newManager
     \<lparr>connections := [peerA \<mapsto> localOfferConnection],
      dataChannels := [peerA \<mapsto> \<lparr>readyState = ChConnecting\<rparr>],
      makingOffer := [peerA \<mapsto> False],
      ignoreOffer := [peerA \<mapsto> False],
      myPeerId := Some peerB,
      cryptoManager := \<lparr>keyPair = Some \<lparr>publicKey = 3, privateKey = 5\<rparr>,
                        sharedSecrets = Map.empty\<rparr>\<rparr>"

section \<open>Properties\<close>

subsection \<open>Politeness\<close>

lemma js_string_lt_total: "a \<noteq> b \<Longrightarrow> js_string_lt a b \<noteq> js_string_lt b a"
  by (induction a b rule: js_string_lt.induct) auto

lemma js_string_lt_Nil: "js_string_lt [] b = (b \<noteq> [])"
  by (cases b) simp_all

lemma js_string_lt_Nil2: "\<not> js_string_lt a []"
  by (cases a) simp_all

text \<open>
  C6. Two peers that know their own ids, the ids distinct: exactly one of them computes
  itself as polite, so exchanging which of the two is local exchanges the roles. A peer
  that does not know its own id yet computes itself as polite.
\<close>

theorem isPolite_exactly_one:
  "(myPeerId sA = Some a \<and> myPeerId sB = Some b \<and> a \<noteq> b
      \<longrightarrow> isPolite sA b \<noteq> isPolite sB a)
   \<and> (myPeerId sA = None \<longrightarrow> isPolite sA b)"
  by (auto simp: isPolite_def js_string_lt_Nil js_string_lt_Nil2 dest: js_string_lt_total)

theorem isPolite_exactly_one_witness:
  "myPeerId (setMyPeerId peerA newManager) = Some peerA
   \<and> myPeerId (setMyPeerId peerB newManager) = Some peerB
   \<and> peerA \<noteq> peerB
   \<and> isPolite (setMyPeerId peerA newManager) peerB
   \<and> \<not> isPolite (setMyPeerId peerB newManager) peerA
   \<and> myPeerId newManager = None \<and> isPolite newManager peerB"
proof -
  have a: "myPeerId (setMyPeerId peerA newManager) = Some peerA"
    and b: "myPeerId (setMyPeerId peerB newManager) = Some peerB"
    and n: "myPeerId newManager = None"
    by (simp_all add: setMyPeerId_def newManager_def)
  have ne: "peerA \<noteq> peerB" by (simp add: peerA_def peerB_def)
  have pa: "isPolite (setMyPeerId peerA newManager) peerB"
    by (simp add: isPolite_def setMyPeerId_def newManager_def peerA_def peerB_def)
  from isPolite_exactly_one [of "setMyPeerId peerA newManager" peerA
      "setMyPeerId peerB newManager" peerB] a b ne pa
  have "\<not> isPolite (setMyPeerId peerB newManager) peerA" by blast
  moreover from isPolite_exactly_one [of newManager peerA newManager peerB] n
  have "isPolite newManager peerB" by blast
  ultimately show ?thesis using a b n ne pa by blast
qed

subsection \<open>Framed encryption\<close>






subsection \<open>Closing a connection\<close>

lemma clearDisconnectedTimer_fields:
  "connections (clearDisconnectedTimer p s) = connections s"
  "dataChannels (clearDisconnectedTimer p s) = dataChannels s"
  "incomingTransfers (clearDisconnectedTimer p s) = incomingTransfers s"
  "pendingConnections (clearDisconnectedTimer p s) = pendingConnections s"
  "pendingCandidates (clearDisconnectedTimer p s) = pendingCandidates s"
  "iceRestartCounts (clearDisconnectedTimer p s) = iceRestartCounts s"
  "makingOffer (clearDisconnectedTimer p s) = makingOffer s"
  "ignoreOffer (clearDisconnectedTimer p s) = ignoreOffer s"
  "relayMode (clearDisconnectedTimer p s) = relayMode s"
  "cryptoManager (clearDisconnectedTimer p s) = cryptoManager s"
  "nextTimer (clearDisconnectedTimer p s) = nextTimer s"
  "disconnectedTimers (clearDisconnectedTimer p s) = (disconnectedTimers s)(p := None)"
  "liveTimers (clearDisconnectedTimer p s) =
     (case disconnectedTimers s p of None \<Rightarrow> liveTimers s | Some t \<Rightarrow> liveTimers s - {t})"
  "trace (clearDisconnectedTimer p s) =
     trace s @ (case disconnectedTimers s p of None \<Rightarrow> [] | Some t \<Rightarrow> [ClearTimeout t])"
  by (auto simp: clearDisconnectedTimer_def split: option.split)

lemma closeConnection_fields:
  "connections (closeConnection peerId s) = (connections s)(peerId := None)"
  "dataChannels (closeConnection peerId s) = (dataChannels s)(peerId := None)"
  "pendingCandidates (closeConnection peerId s) = (pendingCandidates s)(peerId := None)"
  "pendingConnections (closeConnection peerId s) = pendingConnections s - {peerId}"
  "iceRestartCounts (closeConnection peerId s) = (iceRestartCounts s)(peerId := None)"
  "makingOffer (closeConnection peerId s) = (makingOffer s)(peerId := None)"
  "ignoreOffer (closeConnection peerId s) = (ignoreOffer s)(peerId := None)"
  "disconnectedTimers (closeConnection peerId s) = (disconnectedTimers s)(peerId := None)"
  "cryptoManager (closeConnection peerId s) = removePeer peerId (cryptoManager s)"
  "relayMode (closeConnection peerId s) = relayMode s"
  "incomingTransfers (closeConnection peerId s) = incomingTransfers s"
  "liveTimers (closeConnection peerId s) =
     (case disconnectedTimers s peerId of None \<Rightarrow> liveTimers s | Some t \<Rightarrow> liveTimers s - {t})"
  "trace (closeConnection peerId s) = trace s
     @ (case disconnectedTimers s peerId of None \<Rightarrow> [] | Some t \<Rightarrow> [ClearTimeout t])
     @ (case dataChannels s peerId of None \<Rightarrow> [] | Some dc \<Rightarrow> [ChannelClose peerId])
     @ (case connections s peerId of None \<Rightarrow> [] | Some pc \<Rightarrow> [ConnectionClose peerId])"
  by (simp_all add: closeConnection_def Let_def clearDisconnectedTimer_fields)

lemma closeConnection_absent:
  assumes "disconnectedTimers s p = None" "dataChannels s p = None" "connections s p = None"
    "pendingCandidates s p = None" "p \<notin> pendingConnections s" "iceRestartCounts s p = None"
    "makingOffer s p = None" "ignoreOffer s p = None" "sharedSecrets (cryptoManager s) p = None"
  shows "closeConnection p s = s"
  using assms
  by (simp add: closeConnection_def clearDisconnectedTimer_def removePeer_def fun_upd_idem)

lemma closeConnection_idem:
  "closeConnection peerId (closeConnection peerId s) = closeConnection peerId s"
  by (rule closeConnection_absent) (simp_all add: closeConnection_fields removePeer_def)


text \<open>
  C9. \<open>closeConnection\<close> on a peer that is in relay mode, has an inbound transfer in
  flight and a stored shared secret: the relay-mode flag and the transfer are still
  there afterwards, and the shared secret is gone. A file sent to the peer afterwards
  takes the relay path without negotiating and fails at its first chunk for want of the
  key, and a relay chunk of the transfer that was left fails to decrypt.
\<close>

theorem closeConnection_leaves_relay_state:
  "relayMode busyManager peerB = Some True
   \<and> incomingTransfers busyManager peerB = Some demo_transfer
   \<and> fileId demo_transfer = ''id-1''
   \<and> sharedSecrets (cryptoManager busyManager) peerB = Some 7
   \<and> relayMode (closeConnection peerB busyManager) peerB = Some True
   \<and> incomingTransfers (closeConnection peerB busyManager) peerB = Some demo_transfer
   \<and> sharedSecrets (cryptoManager (closeConnection peerB busyManager)) peerB = None
   \<and> fst (sendFile demo_platform noNegotiation ''id-9'' (\<lambda>i. nonce0) peerB smallFile
            (closeConnection peerB busyManager)) = Some NoSharedKey
   \<and> handleRelayData demo_platform peerB (RelayChunk ''id-1'' ''AAAA'')
        (closeConnection peerB busyManager)
       = (Some NoSharedKey, closeConnection peerB busyManager)"
proof -
  let ?s = "closeConnection peerB busyManager"
  have before: "relayMode busyManager peerB = Some True"
    "incomingTransfers busyManager peerB = Some demo_transfer"
    "fileId demo_transfer = ''id-1''"
    "sharedSecrets (cryptoManager busyManager) peerB = Some 7"
    by (simp_all add: busyManager_def newManager_def demo_keys_def demo_transfer_def
        newTransfer_def)
  have after: "relayMode ?s peerB = Some True"
    "incomingTransfers ?s peerB = Some demo_transfer"
    "sharedSecrets (cryptoManager ?s) peerB = None"
    by (simp_all add: closeConnection_fields before removePeer_def)
  have enc: "encryptChunk demo_platform (cryptoManager s') iv peerB c = Inl NoSharedKey"
    if "cryptoManager s' = cryptoManager ?s" for s' iv c
    using that after(3) by (simp add: encryptChunk_def encrypt_def)
  have send: "fst (sendFile demo_platform noNegotiation ''id-9'' (\<lambda>i. nonce0) peerB smallFile ?s)
      = Some NoSharedKey"
    using after(1)
    by (simp add: sendFile_def sendFileViaRelay_def Let_def relayChunks.simps smallFile_def
        enc emit_def)
  have dec: "decryptChunk demo_platform (cryptoManager ?s) peerB buf = Inl NoSharedKey" for buf
    using after(3) by (simp add: decryptChunk_def decrypt_def)
  have recv: "handleRelayData demo_platform peerB (RelayChunk ''id-1'' ''AAAA'') ?s
       = (Some NoSharedKey, ?s)"
  proof -
    have at: "atob demo_platform ''AAAA'' = Some [65, 65, 65, 65]"
      by (simp add: demo_platform_def)
    show ?thesis
      using after(1,2) before(3)
      by (simp add: handleRelayData_def markRelay_def Let_def dec at)
  qed
  from before after send recv show ?thesis by blast
qed

subsection \<open>ICE restarts\<close>

lemma restartAttempts_append:
  "restartAttempts p (s\<lparr>trace := trace s @ [a]\<rparr>) =
     restartAttempts p s + (if isRestartOf p a then 1 else 0)"
  by (simp add: restartAttempts_def)

lemma clearDisconnectedTimer_restart:
  "restartCount (clearDisconnectedTimer p s) p = restartCount s p"
  "restartAttempts p (clearDisconnectedTimer p s) = restartAttempts p s"
  by (simp_all add: restartCount_def restartAttempts_def clearDisconnectedTimer_fields
      split: option.split)

lemma attemptIceRestart_skip:
  "MAX_ICE_RESTARTS \<le> restartCount s p \<Longrightarrow> attemptIceRestart p s = s"
  by (simp add: attemptIceRestart_def)

lemma attemptIceRestart_go:
  assumes "restartCount s p < MAX_ICE_RESTARTS"
  shows "restartCount (attemptIceRestart p s) p = restartCount s p + 1"
    and "restartAttempts p (attemptIceRestart p s) = restartAttempts p s + 1"
proof -
  from assms have eq: "attemptIceRestart p s =
      s\<lparr>iceRestartCounts := (iceRestartCounts s)(p \<mapsto> restartCount s p + 1),
        trace := trace s @ [IceRestart p (restartCount s p + 1)]\<rparr>"
    by (simp add: attemptIceRestart_def)
  show "restartCount (attemptIceRestart p s) p = restartCount s p + 1"
    unfolding eq by (simp add: restartCount_def)
  show "restartAttempts p (attemptIceRestart p s) = restartAttempts p s + 1"
    unfolding eq by (simp add: restartAttempts_def)
qed

lemma attemptIceRestart_budget:
  "restartBudget p (attemptIceRestart p s) = restartBudget p s"
proof (cases "MAX_ICE_RESTARTS \<le> restartCount s p")
  case True
  then show ?thesis by (simp add: attemptIceRestart_skip)
next
  case False
  then have lt: "restartCount s p < MAX_ICE_RESTARTS" by simp
  from attemptIceRestart_go [OF lt] lt show ?thesis
    by (simp add: restartBudget_def)
qed

lemma attemptIceRestart_count:
  "restartCount s p \<le> MAX_ICE_RESTARTS
     \<Longrightarrow> restartCount (attemptIceRestart p s) p \<le> MAX_ICE_RESTARTS"
  using attemptIceRestart_go(1) [of s p] attemptIceRestart_skip [of s p]
  by (cases "MAX_ICE_RESTARTS \<le> restartCount s p") simp_all

lemma clearDisconnectedTimer_budget:
  "restartBudget p (clearDisconnectedTimer p s) = restartBudget p s"
  by (simp add: restartBudget_def clearDisconnectedTimer_restart)

lemma step_budget:
  "failureEvent ev \<Longrightarrow> restartBudget p (connectivityStep p s ev) = restartBudget p s"
proof (cases ev)
  case (IceStateChange pc)
  assume "failureEvent ev"
  with IceStateChange show ?thesis
    by (auto simp: handleIceConnectionStateChange_def Let_def attemptIceRestart_budget
        clearDisconnectedTimer_budget)
      (simp add: restartBudget_def restartAttempts_def restartCount_def
        clearDisconnectedTimer_fields split: option.split)
next
  case (DisconnectedTimer t pc)
  have "restartBudget p (s\<lparr>liveTimers := liveTimers s - {t}\<rparr>) = restartBudget p s"
    by (simp add: restartBudget_def restartAttempts_def restartCount_def)
  with DisconnectedTimer show ?thesis
    by (simp add: disconnectedTimerFired_def Let_def attemptIceRestart_budget)
next
  case (ConnStateChange pc)
  assume "failureEvent ev"
  with ConnStateChange show ?thesis by simp
qed

lemma run_budget:
  "list_all failureEvent evs \<Longrightarrow> restartBudget p (runEvents p evs s) = restartBudget p s"
  unfolding runEvents_def
  by (induction evs arbitrary: s) (simp_all add: step_budget)

lemma step_count:
  "restartCount s p \<le> MAX_ICE_RESTARTS
     \<Longrightarrow> restartCount (connectivityStep p s ev) p \<le> MAX_ICE_RESTARTS"
proof (cases ev)
  case (IceStateChange pc)
  assume le: "restartCount s p \<le> MAX_ICE_RESTARTS"
  then have "restartCount (clearDisconnectedTimer p s) p \<le> MAX_ICE_RESTARTS"
    by (simp add: clearDisconnectedTimer_restart)
  with IceStateChange show ?thesis
    by (auto simp: handleIceConnectionStateChange_def Let_def attemptIceRestart_count)
      (simp_all add: restartCount_def)
next
  case (DisconnectedTimer t pc)
  assume le: "restartCount s p \<le> MAX_ICE_RESTARTS"
  then have "restartCount (s\<lparr>liveTimers := liveTimers s - {t}\<rparr>) p \<le> MAX_ICE_RESTARTS"
    by (simp add: restartCount_def)
  with le DisconnectedTimer show ?thesis
    by (simp add: disconnectedTimerFired_def Let_def attemptIceRestart_count)
next
  case (ConnStateChange pc)
  assume le: "restartCount s p \<le> MAX_ICE_RESTARTS"
  have "restartCount (closeConnection p s) p = 0"
    by (simp add: restartCount_def closeConnection_fields)
  with le ConnStateChange show ?thesis
    by (simp add: handleConnectionStateChange_def)
qed

lemma run_count:
  "restartCount s p \<le> MAX_ICE_RESTARTS
     \<Longrightarrow> restartCount (runEvents p evs s) p \<le> MAX_ICE_RESTARTS"
  unfolding runEvents_def
  by (induction evs arbitrary: s) (simp_all add: step_count)

lemma connected_resets:
  "iceConnectionState pc = IceConnected \<or> iceConnectionState pc = IceCompleted
     \<Longrightarrow> restartCount (handleIceConnectionStateChange p pc s) p = 0"
  by (auto simp: handleIceConnectionStateChange_def Let_def restartCount_def)

text \<open>
  C5. Over any sequence of ICE failure events, disconnection events and firings of the
  disconnection timer for one peer, the restart attempts made are at most the attempts
  the counter still allowed at the start, so at most \<open>MAX_ICE_RESTARTS = 2\<close> from a
  counter of zero; over any sequence of events the counter stays within the maximum.
  Once the counter has reached the maximum, a connection state of failed closes the
  peer's session. An ICE state of connected or completed sets the counter back to zero.
\<close>

theorem ice_restart_bound:
  "(list_all failureEvent evs \<longrightarrow>
      restartAttempts peerId (runEvents peerId evs s)
        \<le> restartAttempts peerId s + (MAX_ICE_RESTARTS - restartCount s peerId))
   \<and> (restartCount s peerId \<le> MAX_ICE_RESTARTS \<longrightarrow>
        restartCount (runEvents peerId evs s) peerId \<le> MAX_ICE_RESTARTS)
   \<and> MAX_ICE_RESTARTS = 2
   \<and> (MAX_ICE_RESTARTS \<le> restartCount s peerId \<and> connectionState pc = ConnFailed \<longrightarrow>
        handleConnectionStateChange peerId pc s = closeConnection peerId s
        \<and> connections (handleConnectionStateChange peerId pc s) peerId = None
        \<and> dataChannels (handleConnectionStateChange peerId pc s) peerId = None
        \<and> restartCount (handleConnectionStateChange peerId pc s) peerId = 0)
   \<and> (iceConnectionState pc' = IceConnected \<or> iceConnectionState pc' = IceCompleted \<longrightarrow>
        restartCount (handleIceConnectionStateChange peerId pc' s) peerId = 0)"
proof -
  have a: "list_all failureEvent evs \<longrightarrow>
      restartAttempts peerId (runEvents peerId evs s)
        \<le> restartAttempts peerId s + (MAX_ICE_RESTARTS - restartCount s peerId)"
  proof
    assume "list_all failureEvent evs"
    from run_budget [OF this, of peerId s] show
      "restartAttempts peerId (runEvents peerId evs s)
        \<le> restartAttempts peerId s + (MAX_ICE_RESTARTS - restartCount s peerId)"
      by (simp add: restartBudget_def)
  qed
  have c: "MAX_ICE_RESTARTS \<le> restartCount s peerId \<and> connectionState pc = ConnFailed \<longrightarrow>
        handleConnectionStateChange peerId pc s = closeConnection peerId s
        \<and> connections (handleConnectionStateChange peerId pc s) peerId = None
        \<and> dataChannels (handleConnectionStateChange peerId pc s) peerId = None
        \<and> restartCount (handleConnectionStateChange peerId pc s) peerId = 0"
    by (simp add: handleConnectionStateChange_def closeConnection_fields restartCount_def)
  have b: "restartCount s peerId \<le> MAX_ICE_RESTARTS \<longrightarrow>
        restartCount (runEvents peerId evs s) peerId \<le> MAX_ICE_RESTARTS"
    by (simp add: run_count)
  have d: "MAX_ICE_RESTARTS = 2" by (simp add: MAX_ICE_RESTARTS_def)
  have e: "iceConnectionState pc' = IceConnected \<or> iceConnectionState pc' = IceCompleted \<longrightarrow>
        restartCount (handleIceConnectionStateChange peerId pc' s) peerId = 0"
    by (simp add: connected_resets)
  from a b c d e show ?thesis by blast
qed

lemma demo_events_run:
  "restartAttempts peerB (runEvents peerB demo_events connectedManager) = 2"
  "restartCount (runEvents peerB demo_events connectedManager) peerB = 2"
  by (simp_all add: demo_events_def runEvents_def handleIceConnectionStateChange_def
      disconnectedTimerFired_def attemptIceRestart_def clearDisconnectedTimer_def
      restartCount_def restartAttempts_def pcWithIce_def newPeerConnection_def
      connectedManager_def newManager_def MAX_ICE_RESTARTS_def Let_def)

theorem ice_restart_bound_witness:
  "list_all failureEvent demo_events
   \<and> restartCount connectedManager peerB = 0
   \<and> restartAttempts peerB (runEvents peerB demo_events connectedManager) \<le> 2
   \<and> restartCount (runEvents peerB demo_events connectedManager) peerB = 2
   \<and> connections connectedManager peerB \<noteq> None
   \<and> connections (handleConnectionStateChange peerB (pcWithConn ConnFailed)
         (runEvents peerB demo_events connectedManager)) peerB = None
   \<and> restartCount (handleIceConnectionStateChange peerB (pcWithIce IceConnected)
         (runEvents peerB demo_events connectedManager)) peerB = 0"
proof -
  have ev: "list_all failureEvent demo_events"
    by (simp add: demo_events_def pcWithIce_def newPeerConnection_def)
  have start: "restartCount connectedManager peerB = 0"
    "restartAttempts peerB connectedManager = 0" "connections connectedManager peerB \<noteq> None"
    by (simp_all add: restartCount_def restartAttempts_def connectedManager_def newManager_def)
  from ice_restart_bound [of demo_events peerB connectedManager
      "pcWithConn ConnFailed" "pcWithIce IceConnected", THEN conjunct1] ev start
  have bound: "restartAttempts peerB (runEvents peerB demo_events connectedManager) \<le> 2"
    by (simp add: MAX_ICE_RESTARTS_def)
  note after = ice_restart_bound [of "[]" peerB "runEvents peerB demo_events connectedManager"
      "pcWithConn ConnFailed" "pcWithIce IceConnected"]
  have failed: "connectionState (pcWithConn ConnFailed) = ConnFailed"
    and connected: "iceConnectionState (pcWithIce IceConnected) = IceConnected"
    by (simp_all add: pcWithConn_def pcWithIce_def newPeerConnection_def)
  have reached: "MAX_ICE_RESTARTS \<le> restartCount (runEvents peerB demo_events connectedManager) peerB"
    by (simp add: demo_events_run(2) MAX_ICE_RESTARTS_def)
  from after failed reached
  have closed: "connections (handleConnectionStateChange peerB (pcWithConn ConnFailed)
         (runEvents peerB demo_events connectedManager)) peerB = None"
    by blast
  from after connected
  have reset: "restartCount (handleIceConnectionStateChange peerB (pcWithIce IceConnected)
         (runEvents peerB demo_events connectedManager)) peerB = 0"
    by blast
  from ev start bound demo_events_run(2) closed reset show ?thesis by blast
qed

subsection \<open>Text messages\<close>

text \<open>
  C3 fails on the code. \<open>sendText\<close> writes the text itself to the transport: on an open
  data channel with a stored key the JSON text record, in relay mode the relay payload
  with the text as its content. Neither path calls \<open>encryptChunk\<close>.
\<close>

theorem sendText_sends_plaintext:
  "trace (sendText N peerB txt connectedManager) = [ChannelSend peerB (Str (TextRecord txt))]
   \<and> trace (sendText N peerB txt relayManager) = [Send (RelayDataSignal peerB (RelayText txt))]"
  by (simp add: sendText_def sendTextViaRelay_def ensureConnection_def channelSend_def emit_def
      hasSharedSecret_def connectedManager_def relayManager_def newManager_def openChannel_def
      demo_keys_def)

subsection \<open>Inbound transfers\<close>

lemma markRelay_fields:
  "incomingTransfers (markRelay p s) = incomingTransfers s"
  "trace (markRelay p s) = trace s"
  "cryptoManager (markRelay p s) = cryptoManager s"
  "onFileRequest (markRelay p s) = onFileRequest s"
  "onFileReceived (markRelay p s) = onFileReceived s"
  by (simp_all add: markRelay_def)

text \<open>
  C7, as the code has it. The inbound transfer is keyed by the sending peer, one per
  peer: a file-start on either path stores the declared transfer under the peer's id,
  in place of any transfer of that peer. While the peer has no transfer in flight, a
  data chunk and a file-end change nothing on the direct path, and on the relay path
  nothing but the relay-mode flag. On the relay path a chunk whose transfer id differs
  from the id of the peer's transfer in flight is dropped in the same way. The direct
  path compares no transfer ids: a file-end there ends the peer's transfer in flight
  whatever id it declares.
\<close>

theorem unknown_transfer_dropped:
  "(incomingTransfers s peerId = None \<longrightarrow>
      handleMessage P peerId (Bin buf) s = (None, s)
      \<and> handleMessage P peerId (Str (FileEnd fid)) s = (None, s)
      \<and> handleRelayData P peerId (RelayChunk fid b64) s = (None, markRelay peerId s)
      \<and> handleRelayData P peerId (RelayFileEnd fid) s = (None, markRelay peerId s))
   \<and> (incomingTransfers s peerId = Some t \<and> fileId t \<noteq> fid \<longrightarrow>
      handleRelayData P peerId (RelayChunk fid b64) s = (None, markRelay peerId s))
   \<and> incomingTransfers (markRelay peerId s) = incomingTransfers s
   \<and> trace (markRelay peerId s) = trace s
   \<and> incomingTransfers (snd (handleMessage P peerId (Str (FileStart fid nm sz tc)) s))
       = (incomingTransfers s)(peerId \<mapsto> newTransfer fid nm sz tc)
   \<and> incomingTransfers (snd (handleRelayData P peerId (RelayFileStart fid nm sz tc) s))
       = (incomingTransfers s)(peerId \<mapsto> newTransfer fid nm sz tc)
   \<and> incomingTransfers (snd (handleMessage P peerId (Str (FileEnd fid)) s))
       = (incomingTransfers s)(peerId := None)"
proof -
  have a: "incomingTransfers s peerId = None \<longrightarrow>
      handleMessage P peerId (Bin buf) s = (None, s)
      \<and> handleMessage P peerId (Str (FileEnd fid)) s = (None, s)
      \<and> handleRelayData P peerId (RelayChunk fid b64) s = (None, markRelay peerId s)
      \<and> handleRelayData P peerId (RelayFileEnd fid) s = (None, markRelay peerId s)"
    by (simp add: handleMessage_def handleRelayData_def Let_def completeTransfer_def
        markRelay_fields)
  have b: "incomingTransfers s peerId = Some t \<and> fileId t \<noteq> fid \<longrightarrow>
      handleRelayData P peerId (RelayChunk fid b64) s = (None, markRelay peerId s)"
    by (simp add: handleRelayData_def Let_def markRelay_fields)
  have c: "incomingTransfers (snd (handleMessage P peerId (Str (FileStart fid nm sz tc)) s))
       = (incomingTransfers s)(peerId \<mapsto> newTransfer fid nm sz tc)"
    by (simp add: handleMessage_def notify_def emit_def)
  have d: "incomingTransfers (snd (handleRelayData P peerId (RelayFileStart fid nm sz tc) s))
       = (incomingTransfers s)(peerId \<mapsto> newTransfer fid nm sz tc)"
    by (simp add: handleRelayData_def Let_def notify_def emit_def markRelay_fields)
  have e: "incomingTransfers (snd (handleMessage P peerId (Str (FileEnd fid)) s))
       = (incomingTransfers s)(peerId := None)"
    by (auto simp: handleMessage_def completeTransfer_def notify_def emit_def
        split: option.split)
  from a b c d e show ?thesis by (simp only: markRelay_fields simp_thms)
qed

text \<open>
  C7 as stated fails: with transfer \<open>id-1\<close> of the peer in flight, a file-end on the
  data channel that declares \<open>id-2\<close> delivers that transfer and removes it.
\<close>

theorem file_end_with_other_id_completes:
  "fileId demo_transfer = ''id-1''
   \<and> incomingTransfers receivingManager peerB = Some demo_transfer
   \<and> handleMessage demo_platform peerB (Str (FileEnd ''id-2'')) receivingManager
       = (None, receivingManager
            \<lparr>incomingTransfers := Map.empty,
             trace := [Callback (FileReceived peerB ''a.txt'' [1, 2])]\<rparr>)"
  by (simp add: handleMessage_def completeTransfer_def notify_def emit_def
      receivingManager_def newManager_def demo_transfer_def newTransfer_def)

theorem unknown_transfer_dropped_witness:
  "incomingTransfers connectedManager peerB = None
   \<and> handleMessage demo_platform peerB (Bin [1, 2, 3]) connectedManager = (None, connectedManager)
   \<and> handleMessage demo_platform peerB (Str (FileEnd ''id-1'')) connectedManager
       = (None, connectedManager)
   \<and> incomingTransfers receivingManager peerB = Some demo_transfer
   \<and> fileId demo_transfer \<noteq> ''id-2''
   \<and> handleRelayData demo_platform peerB (RelayChunk ''id-2'' ''AAAA'') receivingManager
       = (None, markRelay peerB receivingManager)
   \<and> incomingTransfers (markRelay peerB receivingManager) = incomingTransfers receivingManager"
proof -
  have none: "incomingTransfers connectedManager peerB = None"
    by (simp add: connectedManager_def newManager_def)
  have some: "incomingTransfers receivingManager peerB = Some demo_transfer"
    and other: "fileId demo_transfer \<noteq> ''id-2''"
    by (simp_all add: receivingManager_def newManager_def demo_transfer_def newTransfer_def)
  note direct = unknown_transfer_dropped [of connectedManager peerB demo_platform "[1, 2, 3]"
      "''id-1''" "''AAAA''" demo_transfer "''a''" 0 0]
  note relay = unknown_transfer_dropped [of receivingManager peerB demo_platform "[1, 2, 3]"
      "''id-2''" "''AAAA''" demo_transfer "''a''" 0 0]
  from direct none have
    "handleMessage demo_platform peerB (Bin [1, 2, 3]) connectedManager = (None, connectedManager)"
    "handleMessage demo_platform peerB (Str (FileEnd ''id-1'')) connectedManager
       = (None, connectedManager)"
    by blast+
  moreover from relay some other have
    "handleRelayData demo_platform peerB (RelayChunk ''id-2'' ''AAAA'') receivingManager
       = (None, markRelay peerB receivingManager)"
    "incomingTransfers (markRelay peerB receivingManager) = incomingTransfers receivingManager"
    by blast+
  ultimately show ?thesis using none some other by blast
qed

subsection \<open>Chunked transfer\<close>

declare sendChunks.simps [simp del] fileChunks.simps [simp del] relayChunks.simps [simp del]

lemma concat_fileChunks: "concat (fileChunks bs off) = drop off bs"
proof (induction bs off rule: fileChunks.induct)
  case (1 bs off)
  show ?case
  proof (cases "off < length bs")
    case True
    have "take CHUNK_SIZE (drop off bs) @ drop (off + CHUNK_SIZE) bs = drop off bs"
      by (metis append_take_drop_id drop_drop add.commute)
    with True "1.IH" show ?thesis
      by (subst fileChunks.simps) simp
  next
    case False
    then show ?thesis by (subst fileChunks.simps) simp
  qed
qed

lemma ceil_chunks_small:
  assumes "0 < c" "0 < x" "x \<le> c"
  shows "nat \<lceil>real x / real c\<rceil> = 1"
proof -
  from assms have "0 < real x / real c" "real x / real c \<le> 1" by simp_all
  then have "\<lceil>real x / real c\<rceil> = 1" by (intro ceiling_unique) simp_all
  then show ?thesis by simp
qed

lemma ceil_chunks_big:
  assumes "0 < c" "c \<le> x"
  shows "nat \<lceil>real x / real c\<rceil> = Suc (nat \<lceil>real (x - c) / real c\<rceil>)"
proof -
  from assms have "real (x - c) / real c = real x / real c - 1"
    by (simp add: of_nat_diff diff_divide_distrib)
  then have eq: "\<lceil>real (x - c) / real c\<rceil> = \<lceil>real x / real c\<rceil> - 1" by simp
  from assms have "1 \<le> real x / real c" by simp
  then have "1 \<le> \<lceil>real x / real c\<rceil>" by linarith
  then have "nat \<lceil>real x / real c\<rceil> = Suc (nat (\<lceil>real x / real c\<rceil> - 1))"
    by linarith
  then show ?thesis by (simp only: eq)
qed

lemma length_fileChunks:
  "length (fileChunks bs off) = nat \<lceil>real (length bs - off) / real CHUNK_SIZE\<rceil>"
proof (induction bs off rule: fileChunks.induct)
  case (1 bs off)
  have pos: "0 < CHUNK_SIZE" by (simp add: CHUNK_SIZE_def)
  show ?case
  proof (cases "off < length bs")
    case False
    then show ?thesis by (subst fileChunks.simps) simp
  next
    case True
    with "1.IH" have len: "length (fileChunks bs off)
        = Suc (nat \<lceil>real (length bs - (off + CHUNK_SIZE)) / real CHUNK_SIZE\<rceil>)"
      by (subst fileChunks.simps) simp
    show ?thesis
    proof (cases "CHUNK_SIZE \<le> length bs - off")
      case True
      from ceil_chunks_big [OF pos True] len show ?thesis by (simp only: diff_diff_left)
    next
      case False
      with \<open>off < length bs\<close> have "0 < length bs - off" "length bs - off \<le> CHUNK_SIZE"
        "length bs - (off + CHUNK_SIZE) = 0" by simp_all
      with ceil_chunks_small [OF pos this(1,2)] len show ?thesis by (simp only:) simp
    qed
  qed
qed

lemma length_framesOf: "length (framesOf P k ivs i cs) = length cs"
  by (induction cs arbitrary: i) simp_all

lemma sendChunks_trace:
  assumes "sharedSecrets (cryptoManager s) peerId = Some k" "readyState dc = ChOpen"
  shows "sendChunks P ivs peerId dc bs off i s =
     (None, s\<lparr>trace := trace s
        @ map (\<lambda>f. ChannelSend peerId (Bin f)) (framesOf P k ivs i (fileChunks bs off))\<rparr>)"
  using assms
proof (induction P ivs peerId dc bs off i s rule: sendChunks.induct)
  case (1 P ivs peerId dc bs off i s)
  show ?case
  proof (cases "off < length bs")
    case False
    then show ?thesis
      by (subst sendChunks.simps, subst fileChunks.simps) simp
  next
    case True
    let ?c = "take CHUNK_SIZE (drop off bs)"
    let ?f = "ivs i @ gcm_encrypt P k (ivs i) ?c"
    let ?s1 = "emit (ChannelSend peerId (Bin ?f)) s"
    have enc: "encryptChunk P (cryptoManager s) (ivs i) peerId ?c = Inr ?f"
      using "1.prems"(1) by (simp add: encryptChunk_def encrypt_def)
    have snd: "channelSend peerId dc (Bin ?f) s = (None, ?s1)"
      using "1.prems"(2) by (simp add: channelSend_def)
    have key1: "sharedSecrets (cryptoManager ?s1) peerId = Some k"
      using "1.prems"(1) by (simp add: emit_def)
    have ih: "sendChunks P ivs peerId dc bs (off + CHUNK_SIZE) (i + 1) ?s1 =
       (None, ?s1\<lparr>trace := trace ?s1
          @ map (\<lambda>f. ChannelSend peerId (Bin f))
              (framesOf P k ivs (i + 1) (fileChunks bs (off + CHUNK_SIZE)))\<rparr>)"
      by (rule "1.IH" [OF True enc snd [symmetric] refl key1 "1.prems"(2)])
    have unf: "fileChunks bs off = ?c # fileChunks bs (off + CHUNK_SIZE)"
      using True by (subst fileChunks.simps) simp
    show ?thesis
      using True enc snd ih unf
      by (subst sendChunks.simps) (simp add: emit_def)
  qed
qed


lemma settled_at_once:
  "rxManager (decryptSettles (length (awaiting r)) (messageArrives P p (Bin buf) r))
     = snd (handleMessage P p (Bin buf) (rxManager r))"
  "awaiting (decryptSettles (length (awaiting r)) (messageArrives P p (Bin buf) r)) = awaiting r"
  by (auto simp: decryptSettles_def messageArrives_def handleMessage_def Let_def
      split: option.split sum.split)

text \<open>
  What \<open>sendFile\<close> writes to an open channel when the peer's key is stored: the
  file-start record, one frame for each slice of the file, the file-end record. The
  frames are \<open>\<lceil>S / CHUNK_SIZE\<rceil>\<close> for a file of \<open>S\<close> bytes, and the slices put
  together are the file.
\<close>

lemma sendFile_frames:
  assumes "relayMode tx rxId \<noteq> Some True"
    and "dataChannels tx rxId = Some dc" and "readyState dc = ChOpen"
    and "sharedSecrets (cryptoManager tx) rxId = Some k"
  shows "sendFile P N newId ivs rxId f tx =
        (None, tx\<lparr>trace := trace tx
           @ [ChannelSend rxId (Str (FileStart newId (fileName f) (length (fileData f))
                 (totalChunksOf f)))]
           @ map (\<lambda>b. ChannelSend rxId (Bin b))
               (framesOf P k ivs 0 (fileChunks (fileData f) 0))
           @ [ChannelSend rxId (Str (FileEnd newId))]\<rparr>)"
    and "length (framesOf P k ivs 0 (fileChunks (fileData f) 0))
          = nat \<lceil>real (length (fileData f)) / real CHUNK_SIZE\<rceil>"
    and "concat (fileChunks (fileData f) 0) = fileData f"
proof -
  let ?start = "Str (FileStart newId (fileName f) (length (fileData f)) (totalChunksOf f))"
  let ?frames = "framesOf P k ivs 0 (fileChunks (fileData f) 0)"
  let ?tx1 = "emit (ChannelSend rxId ?start) tx"
  have ens: "ensureConnection N rxId tx = (None, tx)"
    using assms(2,3,4) by (simp add: ensureConnection_def hasSharedSecret_def)
  have key1: "sharedSecrets (cryptoManager ?tx1) rxId = Some k"
    using assms(4) by (simp add: emit_def)
  have loop: "sendChunks P ivs rxId dc (fileData f) 0 0 ?tx1 =
     (None, ?tx1\<lparr>trace := trace ?tx1 @ map (\<lambda>b. ChannelSend rxId (Bin b)) ?frames\<rparr>)"
    by (rule sendChunks_trace [OF key1 assms(3)])
  show "sendFile P N newId ivs rxId f tx =
        (None, tx\<lparr>trace := trace tx @ [ChannelSend rxId ?start]
           @ map (\<lambda>b. ChannelSend rxId (Bin b)) ?frames
           @ [ChannelSend rxId (Str (FileEnd newId))]\<rparr>)"
    using assms(1,2,3) ens loop
    by (simp add: sendFile_def channelSend_def emit_def)
  show "length ?frames = nat \<lceil>real (length (fileData f)) / real CHUNK_SIZE\<rceil>"
    by (simp add: length_framesOf length_fileChunks)
  show "concat (fileChunks (fileData f) 0) = fileData f"
    by (simp add: concat_fileChunks)
qed

lemma smallFile_sent:
  "sendFile demo_platform noNegotiation ''id-9'' (\<lambda>i. nonce0) peerB smallFile connectedManager =
     (None, connectedManager\<lparr>trace :=
        [ChannelSend peerB (Str (FileStart ''id-9'' ''a.txt'' 3 1)),
         ChannelSend peerB (Bin (nonce0 @ [1, 2, 3, 7] @ nonce0)),
         ChannelSend peerB (Str (FileEnd ''id-9''))]\<rparr>)"
proof -
  let ?frames = "framesOf demo_platform 7 (\<lambda>i. nonce0) 0 (fileChunks (fileData smallFile) 0)"
  have fs: "fileName smallFile = ''a.txt''" "length (fileData smallFile) = 3"
    by (simp_all add: smallFile_def)
  have tc: "totalChunksOf smallFile = 1"
    using ceil_chunks_small [of CHUNK_SIZE 3]
    by (simp add: totalChunksOf_def smallFile_def CHUNK_SIZE_def)
  have st: "relayMode connectedManager peerB \<noteq> Some True"
    "dataChannels connectedManager peerB = Some openChannel"
    "readyState openChannel = ChOpen"
    "sharedSecrets (cryptoManager connectedManager) peerB = Some 7"
    by (simp_all add: connectedManager_def newManager_def openChannel_def demo_keys_def)
  have tr: "trace connectedManager = []"
    by (simp add: connectedManager_def newManager_def)
  note sent = sendFile_frames(1) [OF st, of demo_platform noNegotiation "''id-9''"
      "\<lambda>i. nonce0" smallFile]
  have cs: "fileChunks (fileData smallFile) 0 = [[1, 2, 3]]"
    by (subst fileChunks.simps, subst fileChunks.simps) (simp add: CHUNK_SIZE_def smallFile_def)
  have frames: "?frames = [nonce0 @ [1, 2, 3, 7] @ nonce0]"
    by (simp add: cs demo_platform_def demo_encrypt_def demo_tag_def)
  show ?thesis
    by (simp only: sent frames fs tc tr list.map append.simps)
qed

text \<open>
  C2. A file of 3 bytes: \<open>sendFile\<close> writes to the open channel the file-start record,
  one binary message and the file-end record. When the receiver's decryption of the
  binary message settles before the file-end record is handled, \<open>onFileReceived\<close> gets
  the 3 bytes. When the file-end record is handled while that decryption is still
  awaited, \<open>onFileReceived\<close> gets an empty file: the transfer is completed with the
  chunks pushed so far, and the chunk is pushed afterwards onto the transfer that was
  removed.
\<close>

theorem file_end_overtakes_chunk:
  "sendFile demo_platform noNegotiation ''id-9'' (\<lambda>i. nonce0) peerB smallFile connectedManager =
     (None, connectedManager\<lparr>trace :=
        [ChannelSend peerB (Str (FileStart ''id-9'' ''a.txt'' 3 1)),
         ChannelSend peerB (Bin (nonce0 @ [1, 2, 3, 7] @ nonce0)),
         ChannelSend peerB (Str (FileEnd ''id-9''))]\<rparr>)
   \<and> trace (rxManager (runChannel demo_platform
        [Message peerA (Str (FileStart ''id-9'' ''a.txt'' 3 1)),
         Message peerA (Bin (nonce0 @ [1, 2, 3, 7] @ nonce0)),
         DecryptSettled 0,
         Message peerA (Str (FileEnd ''id-9''))] idleReceiver))
       = [Callback (FileReceived peerA ''a.txt'' [1, 2, 3])]
   \<and> trace (rxManager (runChannel demo_platform
        [Message peerA (Str (FileStart ''id-9'' ''a.txt'' 3 1)),
         Message peerA (Bin (nonce0 @ [1, 2, 3, 7] @ nonce0)),
         Message peerA (Str (FileEnd ''id-9'')),
         DecryptSettled 0] idleReceiver))
       = [Callback (FileReceived peerA ''a.txt'' [])]"
proof -
  have dec: "decryptChunk demo_platform \<lparr>keyPair = None, sharedSecrets = [peerA \<mapsto> 7]\<rparr> peerA
      (nonce0 @ 1 # 2 # 3 # 7 # nonce0) = Inr [1, 2, 3]"
    by (simp add: decryptChunk_def decrypt_def demo_platform_def demo_decrypt_def demo_tag_def
        nonce0_def)
  have inorder: "trace (rxManager (runChannel demo_platform
        [Message peerA (Str (FileStart ''id-9'' ''a.txt'' 3 1)),
         Message peerA (Bin (nonce0 @ [1, 2, 3, 7] @ nonce0)),
         DecryptSettled 0,
         Message peerA (Str (FileEnd ''id-9''))] idleReceiver))
       = [Callback (FileReceived peerA ''a.txt'' [1, 2, 3])]"
    by (simp add: runChannel_def channelStep_def messageArrives_def decryptSettles_def
        handleMessage_def completeTransfer_def notify_def emit_def newTransfer_def pushChunk_def
        idleReceiver_def receiverOfA_def newManager_def dec Let_def)
  have race: "trace (rxManager (runChannel demo_platform
        [Message peerA (Str (FileStart ''id-9'' ''a.txt'' 3 1)),
         Message peerA (Bin (nonce0 @ [1, 2, 3, 7] @ nonce0)),
         Message peerA (Str (FileEnd ''id-9'')),
         DecryptSettled 0] idleReceiver))
       = [Callback (FileReceived peerA ''a.txt'' [])]"
    by (simp add: runChannel_def channelStep_def messageArrives_def decryptSettles_def
        handleMessage_def completeTransfer_def notify_def emit_def newTransfer_def pushChunk_def
        idleReceiver_def receiverOfA_def newManager_def dec Let_def)
  from smallFile_sent inorder race show ?thesis by blast
qed

subsection \<open>Negotiation\<close>

lemma addBuffered_rejected:
  "remoteDescription pc = None \<Longrightarrow> addBuffered cs pc = pc"
  by (induction cs) (simp_all add: addIceCandidate_def)

lemma addBuffered_applied:
  "remoteDescription pc \<noteq> None \<Longrightarrow> signalingState pc \<noteq> SignalingClosed
     \<Longrightarrow> addBuffered cs pc = pc\<lparr>remoteCandidates := remoteCandidates pc @ cs\<rparr>"
  by (induction cs arbitrary: pc) (auto simp: addIceCandidate_def)

lemma flushPendingCandidates_applied:
  assumes "remoteDescription pc \<noteq> None" "signalingState pc \<noteq> SignalingClosed"
  shows "fst (flushPendingCandidates p pc s)
           = pc\<lparr>remoteCandidates := remoteCandidates pc @ bufferedCandidates s p\<rparr>"
    and "bufferedCandidates (snd (flushPendingCandidates p pc s)) p = []"
    and "trace (snd (flushPendingCandidates p pc s)) = trace s"
    and "ignoreOffer (snd (flushPendingCandidates p pc s)) = ignoreOffer s"
    and "cryptoManager (snd (flushPendingCandidates p pc s)) = cryptoManager s"
    and "connections (snd (flushPendingCandidates p pc s)) = connections s"
  using assms
  by (auto simp: flushPendingCandidates_def bufferedCandidates_def addBuffered_applied
      split: option.splits)

lemma createConnection_existing:
  "connections s p = Some pc \<Longrightarrow> connectionState pc \<noteq> ConnFailed
     \<Longrightarrow> connectionState pc \<noteq> ConnClosed \<Longrightarrow> createConnection p s = Inr (pc, s)"
  by (simp add: createConnection_def)

lemma acceptOffer_rollback:
  "signalingState pc = HaveLocalOffer \<Longrightarrow>
     acceptOffer P body p data pc s =
     acceptOffer P body p data (pc\<lparr>signalingState := Stable, localDescription := None\<rparr>) s"
  by (simp add: acceptOffer_def setLocalDescription_def)

lemma acceptOffer_answers:
  assumes st: "signalingState pc = Stable \<or> signalingState pc = HaveRemoteOffer"
    and ty: "sdpType (sdp data) = Offer"
    and imp: "importOfferKey P p data (cryptoManager s) = (None, cm1)"
  shows "connections (acceptOffer P body p data pc s) p =
      Some (pc\<lparr>signalingState := Stable, remoteDescription := Some (sdp data),
              localDescription := Some \<lparr>sdpType = Answer, sdpBody = body\<rparr>,
              remoteCandidates := remoteCandidates pc @ bufferedCandidates s p\<rparr>)"
    and "bufferedCandidates (acceptOffer P body p data pc s) p = []"
    and "trace (acceptOffer P body p data pc s) = trace s
      @ [Send (AnswerSignal p \<lparr>sdpType = Answer, sdpBody = body\<rparr> (fst (exportPublicKey P cm1)))]"
    and "ignoreOffer (acceptOffer P body p data pc s) = ignoreOffer s"
    and "cryptoManager (acceptOffer P body p data pc s) = snd (exportPublicKey P cm1)"
proof -
  let ?pc2 = "pc\<lparr>signalingState := HaveRemoteOffer, remoteDescription := Some (sdp data)\<rparr>"
  let ?fl = "flushPendingCandidates p ?pc2 s"
  let ?pc3 = "?pc2\<lparr>remoteCandidates := remoteCandidates ?pc2 @ bufferedCandidates s p\<rparr>"
  let ?ans = "\<lparr>sdpType = Answer, sdpBody = body\<rparr>"
  have no_rb: "signalingState pc \<noteq> HaveLocalOffer" using st by auto
  have sr: "setRemoteDescription (sdp data) pc = Inr ?pc2"
    using st ty by (auto simp: setRemoteDescription_def)
  have fl: "fst ?fl = ?pc3" "bufferedCandidates (snd ?fl) p = []" "trace (snd ?fl) = trace s"
    "ignoreOffer (snd ?fl) = ignoreOffer s" "cryptoManager (snd ?fl) = cryptoManager s"
    by (simp_all add: flushPendingCandidates_applied)
  have ca: "createAnswer body ?pc3 = Inr ?ans" by (simp add: createAnswer_def)
  have sl: "setLocalDescription ?ans ?pc3
      = Inr (?pc3\<lparr>signalingState := Stable, localDescription := Some ?ans\<rparr>)"
    by (simp add: setLocalDescription_def)
  have eq: "acceptOffer P body p data pc s =
      emit (Send (AnswerSignal p ?ans (fst (exportPublicKey P cm1))))
        (storeConnection p (?pc3\<lparr>signalingState := Stable, localDescription := Some ?ans\<rparr>)
           ((storeConnection p ?pc3 (snd ?fl))\<lparr>cryptoManager := snd (exportPublicKey P cm1)\<rparr>))"
    using no_rb sr fl(1,5) imp ca sl
    by (simp add: acceptOffer_def Let_def split_def storeConnection_def)
  show "connections (acceptOffer P body p data pc s) p =
      Some (pc\<lparr>signalingState := Stable, remoteDescription := Some (sdp data),
              localDescription := Some ?ans,
              remoteCandidates := remoteCandidates pc @ bufferedCandidates s p\<rparr>)"
    unfolding eq by (simp add: emit_def storeConnection_def)
  show "bufferedCandidates (acceptOffer P body p data pc s) p = []"
    unfolding eq using fl(2) by (simp add: emit_def storeConnection_def bufferedCandidates_def)
  show "trace (acceptOffer P body p data pc s) = trace s
      @ [Send (AnswerSignal p ?ans (fst (exportPublicKey P cm1)))]"
    unfolding eq using fl(3) by (simp add: emit_def storeConnection_def)
  show "ignoreOffer (acceptOffer P body p data pc s) = ignoreOffer s"
    unfolding eq using fl(4) by (simp add: emit_def storeConnection_def)
  show "cryptoManager (acceptOffer P body p data pc s) = snd (exportPublicKey P cm1)"
    unfolding eq by (simp add: emit_def storeConnection_def)
qed


lemma handleOffer_existing:
  assumes "connections s p = Some pc" "connectionState pc \<noteq> ConnFailed"
    "connectionState pc \<noteq> ConnClosed"
  shows "handleOffer P body p data s =
     (if \<not> isPolite s p \<and> offerCollision s p pc
      then (None, s\<lparr>ignoreOffer := (ignoreOffer s)(p \<mapsto> True)\<rparr>)
      else (None, acceptOffer P body p data pc (s\<lparr>ignoreOffer := (ignoreOffer s)(p \<mapsto> False)\<rparr>)))"
  using assms
  by (simp add: handleOffer_def createConnection_existing Let_def)

lemma demo_btoa_key: "btoa demo_platform [75, 69, 89] = ''KEY''"
  unfolding demo_platform_def by code_simp

lemma demo_exportPublicKey: "fst (exportPublicKey demo_platform cm) = ''KEY''"
proof -
  have "exportKey demo_platform k = [75, 69, 89]" for k
    by (simp add: demo_platform_def)
  then show ?thesis
    by (simp add: exportPublicKey_def generateKeyPair_def arrayBufferToBase64_def Let_def
        demo_btoa_key split: option.split)
qed

text \<open>
  C4. The impolite peer has sent its own offer: the connection is in have-local-offer
  and \<open>makingOffer\<close> is false again. A remote offer from the same peer arrives. The
  collision test of \<open>handleOffer\<close> is false in this state, so the offer is not ignored:
  \<open>ignoreOffer\<close> is set to false, the local offer is rolled back, the remote offer is
  applied, the peer's key is imported and the answer is sent.
\<close>

theorem impolite_peer_answers_colliding_offer:
  "myPeerId offeringManager = Some peerB
   \<and> \<not> isPolite offeringManager peerA
   \<and> connections offeringManager peerA = Some localOfferConnection
   \<and> signalingState localOfferConnection = HaveLocalOffer
   \<and> localDescription localOfferConnection = Some \<lparr>sdpType = Offer, sdpBody = 2\<rparr>
   \<and> makingOffer offeringManager peerA = Some False
   \<and> \<not> offerCollision offeringManager peerA localOfferConnection
   \<and> fst (handleOffer demo_platform 9 peerA keyedOffer offeringManager) = None
   \<and> ignoreOffer (snd (handleOffer demo_platform 9 peerA keyedOffer offeringManager)) peerA
       = Some False
   \<and> connections (snd (handleOffer demo_platform 9 peerA keyedOffer offeringManager)) peerA =
       Some (newPeerConnection
               \<lparr>signalingState := Stable,
                localDescription := Some \<lparr>sdpType = Answer, sdpBody = 9\<rparr>,
                remoteDescription := Some \<lparr>sdpType = Offer, sdpBody = 1\<rparr>\<rparr>)
   \<and> trace (snd (handleOffer demo_platform 9 peerA keyedOffer offeringManager)) =
       [Send (AnswerSignal peerA \<lparr>sdpType = Answer, sdpBody = 9\<rparr> ''KEY'')]"
proof -
  let ?s = offeringManager
  let ?s2 = "?s\<lparr>ignoreOffer := (ignoreOffer ?s)(peerA \<mapsto> False)\<rparr>"
  let ?pc1 = "localOfferConnection\<lparr>signalingState := Stable, localDescription := None\<rparr>"
  have st: "myPeerId ?s = Some peerB" "\<not> isPolite ?s peerA"
    "connections ?s peerA = Some localOfferConnection"
    "makingOffer ?s peerA = Some False"
    "trace ?s = []" "bufferedCandidates ?s2 peerA = []"
    by (simp_all add: offeringManager_def newManager_def isPolite_def peerA_def peerB_def
        bufferedCandidates_def)
  have pc: "signalingState localOfferConnection = HaveLocalOffer"
    "localDescription localOfferConnection = Some \<lparr>sdpType = Offer, sdpBody = 2\<rparr>"
    "connectionState localOfferConnection \<noteq> ConnFailed"
    "connectionState localOfferConnection \<noteq> ConnClosed"
    by (simp_all add: localOfferConnection_def newPeerConnection_def)
  have nc: "\<not> offerCollision ?s peerA localOfferConnection"
    by (simp add: offerCollision_def st(4) pc(1))
  have ho: "handleOffer demo_platform 9 peerA keyedOffer ?s =
      (None, acceptOffer demo_platform 9 peerA keyedOffer ?pc1 ?s2)"
    using nc by (simp add: handleOffer_existing [OF st(3) pc(3,4)] acceptOffer_rollback [OF pc(1)])
  have st1: "signalingState ?pc1 = Stable \<or> signalingState ?pc1 = HaveRemoteOffer" by simp
  have ty: "sdpType (sdp keyedOffer) = Offer" "sdp keyedOffer = \<lparr>sdpType = Offer, sdpBody = 1\<rparr>"
    by (simp_all add: keyedOffer_def)
  have imp: "importOfferKey demo_platform peerA keyedOffer (cryptoManager ?s2) =
      (None, (cryptoManager ?s2)\<lparr>sharedSecrets := [peerA \<mapsto> 9]\<rparr>)"
    by (simp add: importOfferKey_def importPeerPublicKey_def base64ToArrayBuffer_def
        keyedOffer_def offeringManager_def newManager_def demo_platform_def)
  note acc = acceptOffer_answers [OF st1 ty(1) imp, of 9]
  have r1: "fst (handleOffer demo_platform 9 peerA keyedOffer ?s) = None" by (simp add: ho)
  have r2: "ignoreOffer (snd (handleOffer demo_platform 9 peerA keyedOffer ?s)) peerA = Some False"
    by (simp add: ho acc(4))
  have r3: "connections (snd (handleOffer demo_platform 9 peerA keyedOffer ?s)) peerA =
       Some (newPeerConnection
               \<lparr>signalingState := Stable,
                localDescription := Some \<lparr>sdpType = Answer, sdpBody = 9\<rparr>,
                remoteDescription := Some \<lparr>sdpType = Offer, sdpBody = 1\<rparr>\<rparr>)"
  proof -
    from acc(1) have "connections (acceptOffer demo_platform 9 peerA keyedOffer ?pc1 ?s2) peerA =
       Some (newPeerConnection
               \<lparr>signalingState := Stable,
                localDescription := Some \<lparr>sdpType = Answer, sdpBody = 9\<rparr>,
                remoteDescription := Some \<lparr>sdpType = Offer, sdpBody = 1\<rparr>\<rparr>)"
      by (simp add: st(6) ty(2) localOfferConnection_def newPeerConnection_def)
    then show ?thesis by (simp only: ho snd_conv)
  qed
  have r4: "trace (snd (handleOffer demo_platform 9 peerA keyedOffer ?s)) =
       [Send (AnswerSignal peerA \<lparr>sdpType = Answer, sdpBody = 9\<rparr> ''KEY'')]"
    by (simp add: ho acc(3) st(5) demo_exportPublicKey)
  from st(1,2,3,4) pc(1,2) nc r1 r2 r3 r4 show ?thesis by blast
qed


lemma importOfferKey_no_keyPair:
  assumes "keyPair cm = None" "peerKey data = Some b64" "b64 \<noteq> []"
    "atob P b64 = Some buf" "importKey P buf = Some pk"
  shows "importOfferKey P p data cm = (Some TypeError, cm)"
  using assms by (simp add: importOfferKey_def importPeerPublicKey_def base64ToArrayBuffer_def)

lemma acceptOffer_import_fails:
  assumes st: "signalingState pc = Stable \<or> signalingState pc = HaveRemoteOffer"
    and ty: "sdpType (sdp data) = Offer"
    and imp: "importOfferKey P p data (cryptoManager s) = (Some e, cm1)"
  shows "connections (acceptOffer P body p data pc s) p =
      Some (pc\<lparr>signalingState := HaveRemoteOffer, remoteDescription := Some (sdp data),
              remoteCandidates := remoteCandidates pc @ bufferedCandidates s p\<rparr>)"
    and "trace (acceptOffer P body p data pc s) = trace s"
    and "cryptoManager (acceptOffer P body p data pc s) = cm1"
proof -
  let ?pc2 = "pc\<lparr>signalingState := HaveRemoteOffer, remoteDescription := Some (sdp data)\<rparr>"
  let ?fl = "flushPendingCandidates p ?pc2 s"
  let ?pc3 = "?pc2\<lparr>remoteCandidates := remoteCandidates ?pc2 @ bufferedCandidates s p\<rparr>"
  have no_rb: "signalingState pc \<noteq> HaveLocalOffer" using st by auto
  have sr: "setRemoteDescription (sdp data) pc = Inr ?pc2"
    using st ty by (auto simp: setRemoteDescription_def)
  have fl: "fst ?fl = ?pc3" "trace (snd ?fl) = trace s" "cryptoManager (snd ?fl) = cryptoManager s"
    by (simp_all add: flushPendingCandidates_applied)
  have eq: "acceptOffer P body p data pc s = (storeConnection p ?pc3 (snd ?fl))\<lparr>cryptoManager := cm1\<rparr>"
    using no_rb sr fl(1,3) imp
    by (simp add: acceptOffer_def Let_def split_def storeConnection_def)
  show "connections (acceptOffer P body p data pc s) p =
      Some (pc\<lparr>signalingState := HaveRemoteOffer, remoteDescription := Some (sdp data),
              remoteCandidates := remoteCandidates pc @ bufferedCandidates s p\<rparr>)"
    unfolding eq by (simp add: storeConnection_def)
  show "trace (acceptOffer P body p data pc s) = trace s"
    unfolding eq using fl(2) by (simp add: storeConnection_def)
  show "cryptoManager (acceptOffer P body p data pc s) = cm1"
    unfolding eq by (simp add: storeConnection_def)
qed

lemma createConnection_new:
  assumes "connections s p = None" "p \<notin> pendingConnections s"
  shows "\<exists>s1. createConnection p s = Inr (newPeerConnection, s1)
      \<and> connections s1 p = Some newPeerConnection
      \<and> makingOffer s1 p = Some False
      \<and> bufferedCandidates s1 p = []
      \<and> trace s1 = trace s \<and> cryptoManager s1 = cryptoManager s \<and> myPeerId s1 = myPeerId s"
proof -
  have rej: "addBuffered cs newPeerConnection = newPeerConnection" for cs
    by (rule addBuffered_rejected) (simp add: newPeerConnection_def)
  show ?thesis
    using assms
    by (auto simp: createConnection_def flushPendingCandidates_def Let_def rej
        bufferedCandidates_def split: option.splits)
qed

text \<open>
  C10. With no local key pair and well-formed key bytes, \<open>importPeerPublicKey\<close> fails
  with \<open>TypeError\<close> and leaves the crypto manager as it was: no pair is generated and
  no secret is stored. After \<open>exportPublicKey\<close> the same import succeeds and stores a
  secret for the peer. \<open>handleOffer\<close> imports before it exports: the first offer of a
  peer, carrying a well-formed key, handled while there is no local key pair, is applied
  as remote description and then the import fails; the error is caught, nothing is sent,
  no key pair is generated and the connection stays in have-remote-offer.
\<close>

theorem importPeerPublicKey_needs_keyPair:
  "(keyPair cm = None \<and> atob P b64 = Some buf \<and> importKey P buf = Some pk \<longrightarrow>
      importPeerPublicKey P peerId b64 cm = (Some TypeError, cm))
   \<and> (atob P b64 = Some buf \<and> importKey P buf = Some pk \<longrightarrow>
      fst (importPeerPublicKey P peerId b64 (snd (exportPublicKey P cm))) = None
      \<and> sharedSecrets (snd (importPeerPublicKey P peerId b64 (snd (exportPublicKey P cm)))) peerId
          \<noteq> None)
   \<and> (connections s peerId = None \<and> peerId \<notin> pendingConnections s
       \<and> keyPair (cryptoManager s) = None
       \<and> sdpType (sdp data) = Offer \<and> peerKey data = Some b64 \<and> b64 \<noteq> []
       \<and> atob P b64 = Some buf \<and> importKey P buf = Some pk \<longrightarrow>
      fst (handleOffer P body peerId data s) = None
      \<and> trace (snd (handleOffer P body peerId data s)) = trace s
      \<and> cryptoManager (snd (handleOffer P body peerId data s)) = cryptoManager s
      \<and> connections (snd (handleOffer P body peerId data s)) peerId =
          Some (newPeerConnection\<lparr>signalingState := HaveRemoteOffer,
                                  remoteDescription := Some (sdp data)\<rparr>))"
proof -
  have a: "keyPair cm = None \<and> atob P b64 = Some buf \<and> importKey P buf = Some pk \<longrightarrow>
      importPeerPublicKey P peerId b64 cm = (Some TypeError, cm)"
    by (simp add: importPeerPublicKey_def base64ToArrayBuffer_def)
  have b: "atob P b64 = Some buf \<and> importKey P buf = Some pk \<longrightarrow>
      fst (importPeerPublicKey P peerId b64 (snd (exportPublicKey P cm))) = None
      \<and> sharedSecrets (snd (importPeerPublicKey P peerId b64 (snd (exportPublicKey P cm)))) peerId
          \<noteq> None"
    by (auto simp: importPeerPublicKey_def base64ToArrayBuffer_def exportPublicKey_def
        generateKeyPair_def Let_def split: option.splits)
  have c: "fst (handleOffer P body peerId data s) = None
      \<and> trace (snd (handleOffer P body peerId data s)) = trace s
      \<and> cryptoManager (snd (handleOffer P body peerId data s)) = cryptoManager s
      \<and> connections (snd (handleOffer P body peerId data s)) peerId =
          Some (newPeerConnection\<lparr>signalingState := HaveRemoteOffer,
                                  remoteDescription := Some (sdp data)\<rparr>)"
    if new: "connections s peerId = None" "peerId \<notin> pendingConnections s"
      and nokey: "keyPair (cryptoManager s) = None"
      and ty: "sdpType (sdp data) = Offer"
      and key: "peerKey data = Some b64" "b64 \<noteq> []" "atob P b64 = Some buf"
        "importKey P buf = Some pk"
  proof -
    from createConnection_new [OF new] obtain s1 where
      cc: "createConnection peerId s = Inr (newPeerConnection, s1)"
      and s1: "connections s1 peerId = Some newPeerConnection" "makingOffer s1 peerId = Some False"
        "bufferedCandidates s1 peerId = []" "trace s1 = trace s"
        "cryptoManager s1 = cryptoManager s"
      by blast
    let ?s2 = "s1\<lparr>ignoreOffer := (ignoreOffer s1)(peerId \<mapsto> False)\<rparr>"
    have nc: "\<not> offerCollision s1 peerId newPeerConnection"
      using s1(2) by (simp add: offerCollision_def newPeerConnection_def)
    have ho: "handleOffer P body peerId data s
        = (None, acceptOffer P body peerId data newPeerConnection ?s2)"
      using cc nc by (simp add: handleOffer_def Let_def)
    have st: "signalingState newPeerConnection = Stable
        \<or> signalingState newPeerConnection = HaveRemoteOffer"
      by (simp add: newPeerConnection_def)
    have imp: "importOfferKey P peerId data (cryptoManager ?s2)
        = (Some TypeError, cryptoManager ?s2)"
      using nokey s1(5) key by (intro importOfferKey_no_keyPair) simp_all
    have buf: "bufferedCandidates ?s2 peerId = []"
      using s1(3) by (simp add: bufferedCandidates_def)
    from acceptOffer_import_fails [OF st ty imp, of body] s1(4,5) buf
    show ?thesis
      unfolding ho by (simp add: newPeerConnection_def)
  qed
  from a b c show ?thesis by blast
qed


theorem importPeerPublicKey_needs_keyPair_witness:
  "keyPair newCryptoManager = None
   \<and> atob demo_platform ''QUJD'' = Some [81, 85, 74, 68]
   \<and> importKey demo_platform [81, 85, 74, 68] = Some 4
   \<and> importPeerPublicKey demo_platform peerB ''QUJD'' newCryptoManager
       = (Some TypeError, newCryptoManager)
   \<and> fst (importPeerPublicKey demo_platform peerB ''QUJD''
         (snd (exportPublicKey demo_platform newCryptoManager))) = None
   \<and> fst (handleOffer demo_platform 9 peerB keyedOffer newManager) = None
   \<and> trace (snd (handleOffer demo_platform 9 peerB keyedOffer newManager)) = []
   \<and> keyPair (cryptoManager (snd (handleOffer demo_platform 9 peerB keyedOffer newManager)))
       = None
   \<and> connections (snd (handleOffer demo_platform 9 peerB keyedOffer newManager)) peerB =
       Some (newPeerConnection\<lparr>signalingState := HaveRemoteOffer,
               remoteDescription := Some \<lparr>sdpType = Offer, sdpBody = 1\<rparr>\<rparr>)"
proof -
  have h: "keyPair newCryptoManager = None"
    "atob demo_platform ''QUJD'' = Some [81, 85, 74, 68]"
    "importKey demo_platform [81, 85, 74, 68] = Some 4"
    by (simp_all add: newCryptoManager_def demo_platform_def)
  have m: "connections newManager peerB = None" "peerB \<notin> pendingConnections newManager"
    "keyPair (cryptoManager newManager) = None" "trace newManager = []"
    "cryptoManager newManager = newCryptoManager"
    by (simp_all add: newManager_def newCryptoManager_def)
  have o: "sdpType (sdp keyedOffer) = Offer" "peerKey keyedOffer = Some ''QUJD''"
    "''QUJD'' \<noteq> []" "sdp keyedOffer = \<lparr>sdpType = Offer, sdpBody = 1\<rparr>"
    by (simp_all add: keyedOffer_def)
  note th = importPeerPublicKey_needs_keyPair [of newCryptoManager demo_platform "''QUJD''"
      "[81, 85, 74, 68]" 4 peerB newManager keyedOffer 9]
  from th h have
    "importPeerPublicKey demo_platform peerB ''QUJD'' newCryptoManager
       = (Some TypeError, newCryptoManager)"
    "fst (importPeerPublicKey demo_platform peerB ''QUJD''
         (snd (exportPublicKey demo_platform newCryptoManager))) = None"
    by blast+
  moreover from th h m(1,2,3) o(1,2,3) have
    "fst (handleOffer demo_platform 9 peerB keyedOffer newManager) = None
      \<and> trace (snd (handleOffer demo_platform 9 peerB keyedOffer newManager)) = trace newManager
      \<and> cryptoManager (snd (handleOffer demo_platform 9 peerB keyedOffer newManager))
          = cryptoManager newManager
      \<and> connections (snd (handleOffer demo_platform 9 peerB keyedOffer newManager)) peerB =
          Some (newPeerConnection\<lparr>signalingState := HaveRemoteOffer,
                                  remoteDescription := Some (sdp keyedOffer)\<rparr>)"
    by blast
  ultimately show ?thesis
    using h by (simp add: m(4,5) o(4))
qed

text \<open>
  C8 fails on the code. A candidate that arrives while the peer has no connection is
  buffered. The next offer makes \<open>createConnection\<close> create the connection and flush
  the buffer into it before any remote description is set: the connection rejects the
  candidate and the buffer is deleted. After the offer is applied and answered the
  connection holds no remote candidate and the buffer is gone. The same candidate
  buffered for an existing connection without remote description is applied by the
  flush that follows \<open>setRemoteDescription\<close>.
\<close>

theorem buffered_candidate_lost:
  "pendingCandidates (handleIceCandidate peerB 4 newManager) peerB = Some [4]
   \<and> createConnection peerB (handleIceCandidate peerB 4 newManager)
       = Inr (newPeerConnection,
              newManager\<lparr>connections := [peerB \<mapsto> newPeerConnection],
                         makingOffer := [peerB \<mapsto> False],
                         ignoreOffer := [peerB \<mapsto> False]\<rparr>)
   \<and> fst (handleOffer demo_platform 9 peerB plainOffer (handleIceCandidate peerB 4 newManager))
       = None
   \<and> connections (snd (handleOffer demo_platform 9 peerB plainOffer
         (handleIceCandidate peerB 4 newManager))) peerB
       = Some \<lparr>signalingState = Stable, connectionState = ConnNew, iceConnectionState = IceNew,
               remoteDescription = Some \<lparr>sdpType = Offer, sdpBody = 1\<rparr>,
               localDescription = Some \<lparr>sdpType = Answer, sdpBody = 9\<rparr>,
               remoteCandidates = []\<rparr>
   \<and> pendingCandidates (snd (handleOffer demo_platform 9 peerB plainOffer
         (handleIceCandidate peerB 4 newManager))) peerB = None
   \<and> connections (snd (handleOffer demo_platform 9 peerB plainOffer
         (handleIceCandidate peerB 4 (storeConnection peerB newPeerConnection newManager)))) peerB
       = Some \<lparr>signalingState = Stable, connectionState = ConnNew, iceConnectionState = IceNew,
               remoteDescription = Some \<lparr>sdpType = Offer, sdpBody = 1\<rparr>,
               localDescription = Some \<lparr>sdpType = Answer, sdpBody = 9\<rparr>,
               remoteCandidates = [4]\<rparr>"
  by (simp add: handleIceCandidate_def handleOffer_def createConnection_def
      flushPendingCandidates_def addIceCandidate_def acceptOffer_def offerCollision_def
      isPolite_def setRemoteDescription_def setLocalDescription_def createAnswer_def
      importOfferKey_def exportPublicKey_def generateKeyPair_def arrayBufferToBase64_def
      storeConnection_def emit_def
      newManager_def newPeerConnection_def newCryptoManager_def plainOffer_def
      demo_platform_def Let_def)

end
